theory Spec2Isabelle
  imports Complex_Main "HOL-Library.State_Monad"
begin

section \<open>Python strings\<close>

text \<open>
  Text is modelled as \<^typ>\<open>string\<close>, one \<^typ>\<open>char\<close> per character of the (ASCII)
  output of the external tool and of the text typed into the window. The helpers follow
  the Python \<open>str\<close> methods the recorder calls: \<open>in\<close>, \<open>startswith\<close>,
  \<open>endswith\<close>, \<open>splitlines\<close> and \<open>split\<close> with a one-character separator here;
  \<open>strip\<close>, \<open>lower\<close>, \<open>replace\<close>, \<open>int(...)\<close> and \<open>str(...)\<close> of an
  integer further down.
\<close>

definition startswith :: "string \<Rightarrow> string \<Rightarrow> bool" where
  "startswith s pre = (take (length pre) s = pre)"

definition endswith :: "string \<Rightarrow> string \<Rightarrow> bool" where
  "endswith s suf = (length suf \<le> length s \<and> drop (length s - length suf) s = suf)"

text \<open>\<open>sub in s\<close>.\<close>

fun contains :: "string \<Rightarrow> string \<Rightarrow> bool" where
  "contains sub [] = (sub = [])"
| "contains sub (c # cs) = (startswith (c # cs) sub \<or> contains sub cs)"

text \<open>
  The line boundaries of \<open>str.splitlines\<close> within ASCII: LF, CR, CR LF, VT, FF, FS, GS
  and RS. No empty string is produced after a final line break.
\<close>

definition is_linebreak :: "char \<Rightarrow> bool" where
  "is_linebreak c = (c \<in> {CHR 0x0A, CHR 0x0D, CHR 0x0B, CHR 0x0C, CHR 0x1C, CHR 0x1D, CHR 0x1E})"

fun splitlines_from :: "string \<Rightarrow> string \<Rightarrow> string list" where
  "splitlines_from cur [] = (if cur = [] then [] else [cur])"
| "splitlines_from cur (c # cs) =
     (if c = CHR 0x0D then
        (case cs of
           [] \<Rightarrow> [cur]
         | d # ds \<Rightarrow> if d = CHR 0x0A then cur # splitlines_from [] ds
                    else cur # splitlines_from [] (d # ds))
      else if is_linebreak c then cur # splitlines_from [] cs
      else splitlines_from (cur @ [c]) cs)"

definition splitlines :: "string \<Rightarrow> string list" where
  "splitlines s = splitlines_from [] s"

text \<open>\<open>s.split(c)\<close> for a one-character separator: never empty, one more part than separators.\<close>

fun split_char :: "char \<Rightarrow> string \<Rightarrow> string list" where
  "split_char c [] = [[]]"
| "split_char c (x # xs) =
     (if x = c then [] # split_char c xs
      else (case split_char c xs of
              [] \<Rightarrow> [[x]]
            | p # ps \<Rightarrow> (x # p) # ps))"

section \<open>External processes\<close>

text \<open>
  \<open>subprocess.run\<close> either raises (the executable is missing, its path is \<open>None\<close>, the
  output cannot be decoded) or returns a completed process; with \<open>check=True\<close> a
  non-zero return code raises \<open>CalledProcessError\<close> as well. What the external tool
  answers is an input of the model; \<open>None\<close> stands for a raised exception.
\<close>

datatype completed = Completed (returncode: int) (stdout: string) (stderr: string)

definition subprocess_run :: "bool \<Rightarrow> completed option \<Rightarrow> completed option" where
  "subprocess_run check answer =
     (case answer of
        None \<Rightarrow> None
      | Some c \<Rightarrow> if check \<and> returncode c \<noteq> 0 then None else Some c)"

section \<open>Device enumeration: \<open>RecorderApp.detect_devices\<close>\<close>

definition default_camera :: string where
  "default_camera = ''Default Camera''"

text \<open>
  The loop over the lines of stderr. \<open>line.split('"')[1]\<close> is guarded by \<open>'"' in line\<close>;
  the index error it would raise otherwise is the value \<open>None\<close>.
\<close>

fun device_names :: "string list \<Rightarrow> string list option" where
  "device_names [] = Some []"
| "device_names (line # lines) =
     (if contains ''(video)'' line \<and> contains [CHR 0x22] line then
        (case split_char (CHR 0x22) line of
           _ # name # _ \<Rightarrow> map_option (\<lambda>devices. name # devices) (device_names lines)
         | _ \<Rightarrow> None)
      else device_names lines)"

text \<open>
  The devices are appended in line order; the recursion above conses them in the same
  order. Any exception inside the \<open>try\<close> block gives the placeholder list.
\<close>

definition detect_devices :: "completed option \<Rightarrow> string list" where
  "detect_devices answer =
     (case subprocess_run True answer of
        None \<Rightarrow> [default_camera]
      | Some result \<Rightarrow>
          (case device_names (splitlines (stderr result)) of
             None \<Rightarrow> [default_camera]
           | Some devices \<Rightarrow> if devices = [] then [default_camera] else devices))"

text \<open>The lines the loop takes a device from.\<close>

definition video_lines :: "string \<Rightarrow> string list" where
  "video_lines err =
     filter (\<lambda>line. contains ''(video)'' line \<and> contains [CHR 0x22] line) (splitlines err)"

text \<open>
  ASCII decimal digits (\<open>\d\<close>) and white space (\<open>\s\<close>, also what \<open>strip\<close> removes
  and \<open>int\<close> tolerates around a number).
\<close>

definition is_digit :: "char \<Rightarrow> bool" where
  "is_digit c = (c \<in> set ''0123456789'')"

definition is_space :: "char \<Rightarrow> bool" where
  "is_space c = (c \<in> {CHR '' '', CHR 0x09, CHR 0x0A, CHR 0x0B, CHR 0x0C, CHR 0x0D,
                        CHR 0x1C, CHR 0x1D, CHR 0x1E, CHR 0x1F})"

definition digit_val :: "char \<Rightarrow> int" where
  "digit_val c = of_char c - 48"

text \<open>The value of a run of decimal digits; Python integers are unbounded.\<close>

definition int_of_digits :: "string \<Rightarrow> int" where
  "int_of_digits ds = foldl (\<lambda>a c. 10 * a + digit_val c) 0 ds"

section \<open>Capability probe: \<open>RecorderApp.get_supported_resolutions\<close>\<close>

text \<open>
  \<open>re.search(r"max s=(\d+)x(\d+)\s+fps=(\d+)", line)\<close>. Matching at a fixed position
  is deterministic: each greedy run \<open>\d+\<close> or \<open>\s+\<close> is followed by a literal
  character that is neither a digit nor white space, so giving back a character of the run
  can never make the rest match. \<open>re.search\<close> returns the leftmost match.
\<close>

definition match_here :: "string \<Rightarrow> (int \<times> int \<times> int) option" where
  "match_here s =
     (if startswith s ''max s='' then
        (let r1 = drop 6 s; d1 = takeWhile is_digit r1; r2 = dropWhile is_digit r1 in
         if d1 = [] then None
         else if \<not> startswith r2 ''x'' then None
         else
           (let r3 = drop 1 r2; d2 = takeWhile is_digit r3; r4 = dropWhile is_digit r3;
                sp = takeWhile is_space r4; r5 = dropWhile is_space r4 in
            if d2 = [] \<or> sp = [] then None
            else if \<not> startswith r5 ''fps='' then None
            else
              (let d3 = takeWhile is_digit (drop 4 r5) in
               if d3 = [] then None
               else Some (int_of_digits d1, int_of_digits d2, int_of_digits d3))))
      else None)"

fun re_search :: "string \<Rightarrow> (int \<times> int \<times> int) option" where
  "re_search [] = match_here []"
| "re_search (c # cs) =
     (case match_here (c # cs) of
        Some m \<Rightarrow> Some m
      | None \<Rightarrow> re_search cs)"

text \<open>The \<open>for line in lines\<close> loop that fills \<open>supported\<close>.\<close>

fun supported_of :: "string list \<Rightarrow> (int \<times> int \<times> int) list" where
  "supported_of [] = []"
| "supported_of (line # lines) =
     (if contains ''vcodec=mjpeg'' line \<and> contains ''fps='' line then
        (case re_search line of
           Some m \<Rightarrow> m # supported_of lines
         | None \<Rightarrow> supported_of lines)
      else supported_of lines)"

text \<open>
  \<open>devices_answer\<close> is what the device listing answers, \<open>options_answer name\<close> what
  the format listing for the device \<open>name\<close> answers (run with \<open>check=False\<close>). A device
  without a motion-JPEG line raises inside the \<open>try\<close> block and gives the empty list,
  as every other exception there does.
\<close>

definition get_supported_resolutions ::
  "nat \<Rightarrow> completed option \<Rightarrow> (string \<Rightarrow> completed option) \<Rightarrow> (int \<times> int \<times> int) list" where
  "get_supported_resolutions device_index devices_answer options_answer =
     (let devices = detect_devices devices_answer in
      if device_index \<ge> length devices then []
      else
        (let device_name = devices ! device_index in
         case subprocess_run False (options_answer device_name) of
           None \<Rightarrow> []
         | Some result \<Rightarrow>
             (let lines = splitlines (stderr result);
                  has_mjpeg = list_ex (\<lambda>line. contains ''vcodec=mjpeg'' line) lines in
              if \<not> has_mjpeg then [] else supported_of lines)))"

section \<open>Encoder probe: \<open>RecorderApp.select_codec\<close>\<close>

definition preferred_codec :: string where
  "preferred_codec = ''h264_qsv''"

definition fallback_codec :: string where
  "fallback_codec = ''libx264''"

text \<open>
  What happens inside the second \<open>try\<close> block: creating the temporary file may raise, the
  synthetic encode runs with \<open>check=True\<close>, the output file is looked at, and removing it
  may raise (the \<open>return\<close> comes after \<open>os.remove\<close>).
\<close>

record smoke =
  tempfile_ok :: bool
  encode_answer :: "completed option"
  output_exists :: bool
  output_size :: nat
  remove_ok :: bool

text \<open>
  The machine the process runs on. The \<open>n\<close>-th run of the encoder listing is answered by
  \<open>encoders_answer n\<close>, the \<open>n\<close>-th smoke encode by \<open>smoke_answer n\<close>;
  \<open>listing_runs\<close> and \<open>smoke_runs\<close> count the listings and the smoke tests made so
  far.
\<close>

record world =
  encoders_answer :: "nat \<Rightarrow> completed option"
  smoke_answer :: "nat \<Rightarrow> smoke"
  listing_runs :: nat
  smoke_runs :: nat

definition smoke_test :: "smoke \<Rightarrow> string" where
  "smoke_test sm =
     (if \<not> tempfile_ok sm then fallback_codec
      else
        (case subprocess_run True (encode_answer sm) of
           None \<Rightarrow> fallback_codec
         | Some _ \<Rightarrow>
             if output_exists sm \<and> output_size sm > 0 then
               (if remove_ok sm then preferred_codec else fallback_codec)
             else fallback_codec))"

definition select_codec :: "world \<Rightarrow> string \<times> world" where
  "select_codec w =
     (let w1 = w\<lparr>listing_runs := listing_runs w + 1\<rparr> in
      case subprocess_run True (encoders_answer w (listing_runs w)) of
        None \<Rightarrow> (fallback_codec, w1)
      | Some result \<Rightarrow>
          (let encoder_list = splitlines (stdout result) in
           if \<not> list_ex (\<lambda>line. contains preferred_codec line) encoder_list
           then (fallback_codec, w1)
           else (smoke_test (smoke_answer w (smoke_runs w)),
                 w1\<lparr>smoke_runs := smoke_runs w + 1\<rparr>)))"

text \<open>
  The condition under which \<open>select_codec\<close> goes on to the smoke test: the listing ran
  (with \<open>check=True\<close>) and one of its lines contains the name of the hardware encoder.
\<close>

definition lists_preferred :: "completed option \<Rightarrow> bool" where
  "lists_preferred answer =
     (case subprocess_run True answer of
        None \<Rightarrow> False
      | Some result \<Rightarrow>
          list_ex (\<lambda>line. contains preferred_codec line) (splitlines (stdout result)))"

text \<open>A machine whose listing names the hardware encoder and whose smoke encode succeeds.\<close>

definition qsv_world :: world where
  "qsv_world =
     \<lparr>encoders_answer = (\<lambda>n. Some (Completed 0 '' V..... h264_qsv  H.264 (Intel Quick Sync)'' [])),
      smoke_answer = (\<lambda>n. \<lparr>tempfile_ok = True, encode_answer = Some (Completed 0 [] []),
                            output_exists = True, output_size = 1024, remove_ok = True\<rparr>),
      listing_runs = 0, smoke_runs = 0\<rparr>"

section \<open>Frames and the filter chain: \<open>filters\<close>\<close>

text \<open>
  A frame is an object on a heap: a NumPy array or an OpenCV \<open>UMat\<close>, holding pixel data
  of type \<^typ>\<open>'img\<close>. An address is an index into the heap and a reference in the Python
  program. Every OpenCV call made by \<open>filters\<close> is of the form \<open>dst = cv2.f(src, ...)\<close>:
  it reads its arguments and returns a new object. \<open>cv2.UMat(array)\<close> copies the array
  into a new \<open>UMat\<close>, and \<open>UMat.get()\<close> copies the pixels into a new NumPy array.
\<close>

datatype 'img obj = NdArray 'img | UMat 'img

type_synonym addr = nat

type_synonym 'img heap = "'img obj list"

fun pixels :: "'img obj \<Rightarrow> 'img" where
  "pixels (NdArray x) = x"
| "pixels (UMat x) = x"

fun is_UMat :: "'img obj \<Rightarrow> bool" where
  "is_UMat (NdArray x) = False"
| "is_UMat (UMat x) = True"

definition alloc :: "'img obj \<Rightarrow> ('img heap, addr) state" where
  "alloc v = State (\<lambda>h. (length h, h @ [v]))"

definition deref :: "addr \<Rightarrow> ('img heap, 'img) state" where
  "deref a = State (\<lambda>h. (pixels (h ! a), h))"

definition isinstance_UMat :: "addr \<Rightarrow> ('img heap, bool) state" where
  "isinstance_UMat a = State (\<lambda>h. (is_UMat (h ! a), h))"

datatype color_code =
  COLOR_BGR2GRAY | COLOR_BGR2LAB | COLOR_LAB2BGR | COLOR_BGR2YCrCb | COLOR_BGR2HSV | COLOR_BGR2RGB

datatype cmp_op = CMP_GT | CMP_LT

text \<open>
  What the image library computes on pixel data is a parameter of the model: one function
  per OpenCV or NumPy primitive the recorder calls.
\<close>

record 'img cv2 =
  px_cvtColor :: "'img \<Rightarrow> color_code \<Rightarrow> 'img"
  px_split :: "'img \<Rightarrow> 'img \<times> 'img \<times> 'img"
  px_merge :: "'img list \<Rightarrow> 'img"
  px_clahe :: "real \<Rightarrow> nat \<times> nat \<Rightarrow> 'img \<Rightarrow> 'img"
  px_GaussianBlur :: "'img \<Rightarrow> nat \<times> nat \<Rightarrow> real \<Rightarrow> 'img"
  px_addWeighted :: "'img \<Rightarrow> real \<Rightarrow> 'img \<Rightarrow> real \<Rightarrow> real \<Rightarrow> 'img"
  px_compare :: "'img \<Rightarrow> real \<Rightarrow> cmp_op \<Rightarrow> 'img"
  px_bitwise_and :: "'img \<Rightarrow> 'img \<Rightarrow> 'img"
  px_bitwise_or :: "'img \<Rightarrow> 'img \<Rightarrow> 'img"
  px_bitwise_not :: "'img \<Rightarrow> 'img"
  px_min :: "'img \<Rightarrow> 'img \<Rightarrow> 'img"
  px_max :: "'img \<Rightarrow> 'img \<Rightarrow> 'img"
  px_zeros_like :: "'img \<Rightarrow> 'img"
  px_full_like :: "'img \<Rightarrow> nat \<Rightarrow> 'img"
  px_resize :: "'img \<Rightarrow> int \<times> int \<Rightarrow> 'img"

definition cv2_UMat :: "addr \<Rightarrow> ('img heap, addr) state" where
  "cv2_UMat a = do { x \<leftarrow> deref a; alloc (UMat x) }"

definition umat_get :: "addr \<Rightarrow> ('img heap, addr) state" where
  "umat_get a = do { x \<leftarrow> deref a; alloc (NdArray x) }"

definition cv2_cvtColor :: "'img cv2 \<Rightarrow> addr \<Rightarrow> color_code \<Rightarrow> ('img heap, addr) state" where
  "cv2_cvtColor api src code = do { x \<leftarrow> deref src; alloc (UMat (px_cvtColor api x code)) }"

definition cv2_split :: "'img cv2 \<Rightarrow> addr \<Rightarrow> ('img heap, addr \<times> addr \<times> addr) state" where
  "cv2_split api src = do {
     x \<leftarrow> deref src;
     c0 \<leftarrow> alloc (UMat (fst (px_split api x)));
     c1 \<leftarrow> alloc (UMat (fst (snd (px_split api x))));
     c2 \<leftarrow> alloc (UMat (snd (snd (px_split api x))));
     State_Monad.return (c0, c1, c2)
   }"

definition cv2_merge :: "'img cv2 \<Rightarrow> addr list \<Rightarrow> ('img heap, addr) state" where
  "cv2_merge api channels = do {
     xs \<leftarrow> State_Monad.traverse_list deref channels;
     alloc (UMat (px_merge api xs))
   }"

text \<open>\<open>cv2.createCLAHE(clipLimit, tileGridSize).apply(src)\<close>.\<close>

definition clahe_apply :: "'img cv2 \<Rightarrow> real \<Rightarrow> nat \<times> nat \<Rightarrow> addr \<Rightarrow> ('img heap, addr) state" where
  "clahe_apply api clip tiles src = do { x \<leftarrow> deref src; alloc (UMat (px_clahe api clip tiles x)) }"

definition cv2_GaussianBlur ::
  "'img cv2 \<Rightarrow> addr \<Rightarrow> nat \<times> nat \<Rightarrow> real \<Rightarrow> ('img heap, addr) state" where
  "cv2_GaussianBlur api src ksize sigma = do {
     x \<leftarrow> deref src; alloc (UMat (px_GaussianBlur api x ksize sigma)) }"

definition cv2_addWeighted ::
  "'img cv2 \<Rightarrow> addr \<Rightarrow> real \<Rightarrow> addr \<Rightarrow> real \<Rightarrow> real \<Rightarrow> ('img heap, addr) state" where
  "cv2_addWeighted api src1 alpha src2 beta gamma = do {
     x \<leftarrow> deref src1; y \<leftarrow> deref src2;
     alloc (UMat (px_addWeighted api x alpha y beta gamma)) }"

definition cv2_compare :: "'img cv2 \<Rightarrow> addr \<Rightarrow> real \<Rightarrow> cmp_op \<Rightarrow> ('img heap, addr) state" where
  "cv2_compare api src v cmp = do { x \<leftarrow> deref src; alloc (UMat (px_compare api x v cmp)) }"

definition cv2_bitwise_and :: "'img cv2 \<Rightarrow> addr \<Rightarrow> addr \<Rightarrow> ('img heap, addr) state" where
  "cv2_bitwise_and api a b = do {
     x \<leftarrow> deref a; y \<leftarrow> deref b; alloc (UMat (px_bitwise_and api x y)) }"

definition cv2_bitwise_or :: "'img cv2 \<Rightarrow> addr \<Rightarrow> addr \<Rightarrow> ('img heap, addr) state" where
  "cv2_bitwise_or api a b = do {
     x \<leftarrow> deref a; y \<leftarrow> deref b; alloc (UMat (px_bitwise_or api x y)) }"

definition cv2_bitwise_not :: "'img cv2 \<Rightarrow> addr \<Rightarrow> ('img heap, addr) state" where
  "cv2_bitwise_not api a = do { x \<leftarrow> deref a; alloc (UMat (px_bitwise_not api x)) }"

definition cv2_min :: "'img cv2 \<Rightarrow> addr \<Rightarrow> addr \<Rightarrow> ('img heap, addr) state" where
  "cv2_min api a b = do { x \<leftarrow> deref a; y \<leftarrow> deref b; alloc (UMat (px_min api x y)) }"

definition cv2_max :: "'img cv2 \<Rightarrow> addr \<Rightarrow> addr \<Rightarrow> ('img heap, addr) state" where
  "cv2_max api a b = do { x \<leftarrow> deref a; y \<leftarrow> deref b; alloc (UMat (px_max api x y)) }"

definition np_zeros_like :: "'img cv2 \<Rightarrow> addr \<Rightarrow> ('img heap, addr) state" where
  "np_zeros_like api a = do { x \<leftarrow> deref a; alloc (NdArray (px_zeros_like api x)) }"

definition np_full_like :: "'img cv2 \<Rightarrow> addr \<Rightarrow> nat \<Rightarrow> ('img heap, addr) state" where
  "np_full_like api a v = do { x \<leftarrow> deref a; alloc (NdArray (px_full_like api x v)) }"

definition grid_size :: "nat \<times> nat" where
  "grid_size = (3, 3)"

definition gray_filter :: "'img cv2 \<Rightarrow> addr \<Rightarrow> ('img heap, addr) state" where
  "gray_filter api src = do {
     gray \<leftarrow> cv2_cvtColor api src COLOR_BGR2GRAY;
     cv2_merge api [gray, gray, gray]
   }"

definition simple_CLAHE_RGB :: "'img cv2 \<Rightarrow> addr \<Rightarrow> ('img heap, addr) state" where
  "simple_CLAHE_RGB api src_bgr_umat = do {
     (b_chan, g_chan, r_chan) \<leftarrow> cv2_split api src_bgr_umat;
     b_eq \<leftarrow> clahe_apply api 2.0 grid_size b_chan;
     g_eq \<leftarrow> clahe_apply api 2.0 grid_size g_chan;
     r_eq \<leftarrow> clahe_apply api 2.0 grid_size r_chan;
     cv2_merge api [b_eq, g_eq, r_eq]
   }"

definition simple_CLAHE_L :: "'img cv2 \<Rightarrow> addr \<Rightarrow> ('img heap, addr) state" where
  "simple_CLAHE_L api src_bgr_umat = do {
     lab \<leftarrow> cv2_cvtColor api src_bgr_umat COLOR_BGR2LAB;
     (l, a, b) \<leftarrow> cv2_split api lab;
     l_eq \<leftarrow> clahe_apply api 2.0 grid_size l;
     lab_eq \<leftarrow> cv2_merge api [l_eq, a, b];
     cv2_cvtColor api lab_eq COLOR_LAB2BGR
   }"

text \<open>
  The tuning constants are the defaults of the source: \<open>clahe_clip = 2.0\<close>,
  \<open>a_boost = 1.2\<close>, \<open>b_boost = 1.1\<close>, \<open>l_smooth_ksize = 5\<close>,
  \<open>multiscale_weight = 0.5\<close>, \<open>vessel_extra_boost = 1.3\<close>. Numeric arguments are
  handed to the library as the source writes them; nothing is computed from them here.
  \<open>COLOR_BGR2Lab\<close> and \<open>COLOR_Lab2BGR\<close> are the library's other names for
  \<open>COLOR_BGR2LAB\<close> and \<open>COLOR_LAB2BGR\<close>. The two arguments of the outer
  \<open>bitwise_or\<close> are evaluated from left to right.
\<close>

definition vascular_enhance_filter_ocl :: "'img cv2 \<Rightarrow> addr \<Rightarrow> ('img heap, addr) state" where
  "vascular_enhance_filter_ocl api src = do {
     lab \<leftarrow> cv2_cvtColor api src COLOR_BGR2LAB;
     (L, A, B) \<leftarrow> cv2_split api lab;
     L_blur \<leftarrow> cv2_GaussianBlur api L (5, 5) 0;
     L_eq \<leftarrow> clahe_apply api 2.0 grid_size L_blur;
     L_large \<leftarrow> clahe_apply api 2.0 (fst grid_size * 2, snd grid_size * 2) L;
     L_combined \<leftarrow> cv2_addWeighted api L_eq (1.0 - 0.5) L_large 0.5 0.0;
     A_boosted \<leftarrow> cv2_addWeighted api A 1.2 A 0 (128.0 * (1.0 - 1.2));
     B_boosted \<leftarrow> cv2_addWeighted api B 1.1 B 0 (128.0 * (1.0 - 1.1));
     mask_a \<leftarrow> cv2_compare api A_boosted 135 CMP_GT;
     mask_l \<leftarrow> cv2_compare api L_eq 120 CMP_LT;
     vessel_mask_lab \<leftarrow> cv2_bitwise_and api mask_a mask_l;
     ycrcb \<leftarrow> cv2_cvtColor api src COLOR_BGR2YCrCb;
     (Y, Cr, Cb) \<leftarrow> cv2_split api ycrcb;
     vessel_mask_cr \<leftarrow> cv2_compare api Cr 145 CMP_GT;
     hsv \<leftarrow> cv2_cvtColor api src COLOR_BGR2HSV;
     (H, S, V) \<leftarrow> cv2_split api hsv;
     mask_h_low \<leftarrow> cv2_compare api H 10 CMP_LT;
     mask_h_high \<leftarrow> cv2_compare api H 170 CMP_GT;
     mask_h \<leftarrow> cv2_bitwise_or api mask_h_low mask_h_high;
     mask_s \<leftarrow> cv2_compare api S 70 CMP_GT;
     vessel_mask_hsv \<leftarrow> cv2_bitwise_and api mask_h mask_s;
     lab_or_cr \<leftarrow> cv2_bitwise_or api vessel_mask_lab vessel_mask_cr;
     vessel_mask \<leftarrow> cv2_bitwise_or api lab_or_cr vessel_mask_hsv;
     vessel_extra \<leftarrow> cv2_addWeighted api A_boosted 1.3 A_boosted 0 (128.0 * (1.0 - 1.3));
     inside \<leftarrow> cv2_bitwise_and api vessel_mask vessel_extra;
     not_mask \<leftarrow> cv2_bitwise_not api vessel_mask;
     outside \<leftarrow> cv2_bitwise_and api not_mask A_boosted;
     A_boosted \<leftarrow> cv2_bitwise_or api inside outside;
     A_np \<leftarrow> umat_get A_boosted;
     zeros \<leftarrow> np_zeros_like api A_np;
     zero_u \<leftarrow> cv2_UMat zeros;
     A_np2 \<leftarrow> umat_get A_boosted;
     full \<leftarrow> np_full_like api A_np2 255;
     full_u \<leftarrow> cv2_UMat full;
     A_low \<leftarrow> cv2_max api A_boosted zero_u;
     A_boosted \<leftarrow> cv2_min api A_low full_u;
     B_low \<leftarrow> cv2_max api B_boosted zero_u;
     B_boosted \<leftarrow> cv2_min api B_low full_u;
     lab_boosted \<leftarrow> cv2_merge api [L_combined, A_boosted, B_boosted];
     cv2_cvtColor api lab_boosted COLOR_LAB2BGR
   }"

text \<open>
  The chain proper: the input is copied into a \<open>UMat\<close>, the enabled stages run in the
  fixed order vessel enhancement, colour CLAHE, lightness CLAHE, grey scale, and the result
  is returned as a NumPy array.
\<close>

definition filters ::
  "'img cv2 \<Rightarrow> addr \<Rightarrow> bool \<Rightarrow> bool \<Rightarrow> bool \<Rightarrow> bool \<Rightarrow> ('img heap, addr) state" where
  "filters api img vascular gray clahe_color clahe_l = do {
     img \<leftarrow> cv2_UMat img;
     img \<leftarrow> (if vascular then vascular_enhance_filter_ocl api img else State_Monad.return img);
     img \<leftarrow> (if clahe_color then simple_CLAHE_RGB api img else State_Monad.return img);
     img \<leftarrow> (if clahe_l then simple_CLAHE_L api img else State_Monad.return img);
     img \<leftarrow> (if gray then gray_filter api img else State_Monad.return img);
     is_umat \<leftarrow> isinstance_UMat img;
     if is_umat then umat_get img else State_Monad.return img
   }"

text \<open>
  A computation extends the heap when it leaves every existing object as it is and at most
  adds new ones.
\<close>

definition extends_heap :: "('img heap, 'a) state \<Rightarrow> bool" where
  "extends_heap m = (\<forall>h. \<exists>new. snd (run_state m h) = h @ new)"

text \<open>
  Assertions about a heap computation: \<open>hoare P m Q\<close> says that from a heap satisfying
  \<open>P\<close> the computation \<open>m\<close> yields a result and a heap related by \<open>Q\<close>;
  \<open>umat_at\<close> and \<open>array_on_top\<close> say what kind of object a result is; a computation
  allocates when it adds at least one object.
\<close>

definition hoare ::
  "('img heap \<Rightarrow> bool) \<Rightarrow> ('img heap, 'a) state \<Rightarrow> ('a \<Rightarrow> 'img heap \<Rightarrow> bool) \<Rightarrow> bool" where
  "hoare P m Q = (\<forall>h. P h \<longrightarrow> Q (fst (run_state m h)) (snd (run_state m h)))"

definition umat_at :: "addr \<Rightarrow> 'img heap \<Rightarrow> bool" where
  "umat_at r h = (r < length h \<and> is_UMat (h ! r))"

definition array_on_top :: "addr \<Rightarrow> 'img heap \<Rightarrow> bool" where
  "array_on_top r h = (Suc r = length h \<and> \<not> is_UMat (h ! r))"

definition allocates :: "('img heap, 'a) state \<Rightarrow> bool" where
  "allocates m = (\<forall>h. \<exists>v new. snd (run_state m h) = h @ v # new)"

section \<open>More string helpers\<close>

definition strip :: "string \<Rightarrow> string" where
  "strip s = rev (dropWhile is_space (rev (dropWhile is_space s)))"

definition lower_char :: "char \<Rightarrow> char" where
  "lower_char c = (if c \<in> set ''ABCDEFGHIJKLMNOPQRSTUVWXYZ'' then char_of (of_char c + (32::nat)) else c)"

definition lower :: "string \<Rightarrow> string" where
  "lower s = map lower_char s"

text \<open>\<open>s.replace("fps", "")\<close>: the occurrences are removed from left to right.\<close>

function remove_fps :: "string \<Rightarrow> string" where
  "remove_fps [] = []"
| "remove_fps (c # cs) =
     (if startswith (c # cs) ''fps'' then remove_fps (drop 2 cs) else c # remove_fps cs)"
  by pat_completeness auto
termination
  by (relation "measure length") auto

text \<open>
  The digits of an integer literal as \<open>int(...)\<close> accepts them: decimal digits, with
  single underscores allowed between digits. \<open>None\<close> is \<open>ValueError\<close>.
\<close>

fun literal_digits :: "string \<Rightarrow> string option" where
  "literal_digits [] = None"
| "literal_digits [c] = (if is_digit c then Some [c] else None)"
| "literal_digits (c # u # r) =
     (if \<not> is_digit c then None
      else if u = CHR ''_'' then map_option (\<lambda>ds. c # ds) (literal_digits r)
      else map_option (\<lambda>ds. c # ds) (literal_digits (u # r)))"

definition py_int :: "string \<Rightarrow> int option" where
  "py_int s =
     (case strip s of
        [] \<Rightarrow> None
      | c # r \<Rightarrow>
          if c = CHR ''-'' then map_option (\<lambda>ds. - int_of_digits ds) (literal_digits r)
          else if c = CHR ''+'' then map_option int_of_digits (literal_digits r)
          else map_option int_of_digits (literal_digits (c # r)))"

definition digit_char :: "nat \<Rightarrow> char" where
  "digit_char d = char_of (48 + d)"

fun str_nat :: "nat \<Rightarrow> string" where
  "str_nat n = (if n < 10 then [digit_char n] else str_nat (n div 10) @ [digit_char (n mod 10)])"

definition str_int :: "int \<Rightarrow> string" where
  "str_int i = (if i < 0 then CHR ''-'' # str_nat (nat (- i)) else str_nat (nat i))"

text \<open>
  The text of the resolution box, \<open>"WxH@Ffps"\<close>, as both \<open>start_preview\<close> and
  \<open>start_record\<close> take it apart. Each unpacking needs exactly two parts.
\<close>

definition parse_resolution :: "string \<Rightarrow> (int \<times> int \<times> int) option" where
  "parse_resolution res_text =
     (case split_char (CHR ''@'') res_text of
        [size_text, fps_text] \<Rightarrow>
          (case split_char (CHR ''x'') size_text of
             [ws, hs] \<Rightarrow>
               (case (py_int ws, py_int hs, py_int (remove_fps fps_text)) of
                  (Some w, Some h, Some fps) \<Rightarrow> Some (w, h, fps)
                | _ \<Rightarrow> None)
           | _ \<Rightarrow> None)
      | _ \<Rightarrow> None)"


section \<open>Python floats\<close>

text \<open>
  A finite Python float is modelled by the rational number it denotes. \<open>round_double\<close>
  is IEEE 754 binary64 rounding to nearest, ties to even: 53 significant bits, least
  exponent \<open>-1022\<close> (below it the spacing of the subnormal numbers stays \<open>2^-1074\<close>).
  \<open>double_max\<close> is the largest finite value.
\<close>

datatype exn = ValueError | ZeroDivisionError | OverflowError | UnboundLocalError
  | AttributeError | CaptureError

datatype pyfloat = Finite rat | Infinite

text \<open>\<open>int.bit_length()\<close> of a non-negative integer.\<close>

function bit_length :: "int \<Rightarrow> int" where
  "bit_length n = (if n \<le> 0 then 0 else 1 + bit_length (n div 2))"
  by pat_completeness auto
termination
  by (relation "measure nat") auto

definition pow2 :: "int \<Rightarrow> rat" where
  "pow2 e = (if e \<ge> 0 then 2 ^ nat e else 1 / 2 ^ nat (- e))"

text \<open>\<open>\<lfloor>log\<^sub>2 x\<rfloor>\<close> for a positive rational.\<close>

definition ilog2 :: "rat \<Rightarrow> int" where
  "ilog2 x =
     (let p = fst (quotient_of x); q = snd (quotient_of x);
          e = bit_length p - bit_length q
      in if pow2 e \<le> x then e else e - 1)"

definition round_half_even :: "rat \<Rightarrow> int" where
  "round_half_even y =
     (let f = \<lfloor>y\<rfloor>; d = y - of_int f
      in if d < 1 / 2 then f else if d > 1 / 2 then f + 1 else if even f then f else f + 1)"

definition round_double :: "rat \<Rightarrow> rat" where
  "round_double x =
     (if x = 0 then 0
      else
        (let a = \<bar>x\<bar>; q = max (ilog2 a) (- 1022) - 52; m = round_half_even (a / pow2 q)
         in sgn x * of_int m * pow2 q))"

definition double_max :: rat where
  "double_max = (2 ^ 53 - 1) * 2 ^ 971"

text \<open>
  \<open>w / h\<close> on integers is the correctly rounded quotient; it raises for a zero divisor
  and when the quotient is too large for a float.
\<close>

definition int_truediv :: "int \<Rightarrow> int \<Rightarrow> exn + rat" where
  "int_truediv a b =
     (if b = 0 then Inl ZeroDivisionError
      else
        (let r = round_double (of_int a / of_int b)
         in if \<bar>r\<bar> > double_max then Inl OverflowError else Inr r))"

text \<open>\<open>x / y\<close> on finite floats raises for a zero divisor and overflows to infinity.\<close>

definition float_truediv :: "rat \<Rightarrow> rat \<Rightarrow> exn + pyfloat" where
  "float_truediv x y =
     (if y = 0 then Inl ZeroDivisionError
      else
        (let r = round_double (x / y)
         in if \<bar>r\<bar> > double_max then Inr Infinite else Inr (Finite r)))"

text \<open>\<open>int(x)\<close> truncates towards zero and raises on an infinity.\<close>

fun int_of_float :: "pyfloat \<Rightarrow> exn + int" where
  "int_of_float (Finite r) = Inr (if r \<ge> 0 then \<lfloor>r\<rfloor> else \<lceil>r\<rceil>)"
| "int_of_float Infinite = Inl OverflowError"

section \<open>The preview canvas\<close>

definition PREVIEW_WIDTH :: int where
  "PREVIEW_WIDTH = 1280"

definition PREVIEW_HEIGHT :: int where
  "PREVIEW_HEIGHT = 720"

text \<open>
  The last lines of \<open>start_preview\<close>: \<open>aspect_ratio = w / h\<close>,
  \<open>canvas_width = PREVIEW_WIDTH\<close>, \<open>canvas_height = int(canvas_width / aspect_ratio)\<close>.
  The result is the size the canvas is configured with.
\<close>

definition preview_canvas_size :: "int \<Rightarrow> int \<Rightarrow> exn + (int \<times> int)" where
  "preview_canvas_size w h =
     (case int_truediv w h of
        Inl e \<Rightarrow> Inl e
      | Inr aspect_ratio \<Rightarrow>
          (let canvas_width = PREVIEW_WIDTH in
           case float_truediv (of_int canvas_width) aspect_ratio of
             Inl e \<Rightarrow> Inl e
           | Inr ratio \<Rightarrow>
               (case int_of_float ratio of
                  Inl e \<Rightarrow> Inl e
                | Inr canvas_height \<Rightarrow> Inr (canvas_width, canvas_height))))"


section \<open>The recorder: state of \<open>RecorderApp\<close>\<close>

datatype pyval = PyStr string | PyInt int

text \<open>
  A \<open>WriteGear\<close> object: what it was constructed with, the frames written to it and the
  number of times \<open>close()\<close> was called on it.
\<close>

record 'img write_gear =
  wg_output :: string
  wg_options :: "string \<rightharpoonup> pyval"
  written :: "'img list"
  closes :: nat

datatype thread = NotStarted | Running | Ended | Crashed exn

datatype sink = Preview | Recording

text \<open>
  The attributes of the application object that the capture, preview and recording code
  reads or writes. \<open>stream\<close> is the \<open>CamGear\<close> queue, the frames the source still
  delivers; \<open>read()\<close> takes the first one and returns \<open>None\<close> when the source has ended.
  \<open>duration\<close> is what \<open>self.duration.get()\<close> returns, \<open>None\<close> when the entry does not
  hold a number and the call raises. \<open>devices\<close> is \<open>getattr(self, "devices", [])\<close>.

  Four fields are not attributes of the object; they record what happened:
  \<open>pulled\<close> the frames returned by \<open>stream.read()\<close>, each with the loop that read
  it (named by its sink), \<open>filter_calls\<close> the number of calls of \<open>filters\<close>,
  \<open>delivered\<close> each filtered frame with the sink it was handed to,
  and \<open>writers_opened\<close> the number of \<open>WriteGear\<close> objects constructed.
  \<open>errors_shown\<close> and \<open>infos_shown\<close> count the message boxes.
\<close>

record 'img app =
  CODEC :: string
  devices :: "string list"
  device_menu :: string
  resolution_var :: string
  fps :: int
  duration :: "int option"
  output_var :: string
  quality :: int
  recording :: bool
  previewing :: bool
  stream :: "'img list option"
  writer :: "'img write_gear option"
  latest_frame :: "'img option"
  gray_mode :: bool
  filter_toggle :: bool
  clahe_color :: bool
  clahe_l :: bool
  remaining :: "int option"
  canvas :: "int \<times> int"
  preview_thread :: thread
  record_thread :: thread
  record_args :: "int \<times> int \<times> int"
  pulled :: "('img \<times> sink) list"
  filter_calls :: nat
  delivered :: "('img \<times> sink) list"
  writers_opened :: nat
  errors_shown :: nat
  infos_shown :: nat

text \<open>
  What the surroundings answer when the recorder starts something: the device listing,
  the capture backend (\<open>None\<close> when \<open>CamGear(...).start()\<close> raises), whether the encoder
  can be constructed, the time stamp and the directory part of the output path
  (\<open>os.path.join(target_dir, "")\<close>).
\<close>

record 'img env =
  devices_answer :: "completed option"
  open_camera :: "nat \<Rightarrow> int \<times> int \<times> int \<Rightarrow> 'img list option"
  writer_opens :: bool
  now :: string
  target_dir :: string

definition EXT :: string where
  "EXT = ''.mp4''"

text \<open>\<open>filters(frame, ...)\<close> on a frame held by value: the pixels of the returned array.\<close>

definition filters_frame :: "'img cv2 \<Rightarrow> 'img \<Rightarrow> bool \<Rightarrow> bool \<Rightarrow> bool \<Rightarrow> bool \<Rightarrow> 'img" where
  "filters_frame api frame vascular gray clahe_col clahe_lum =
     (case run_state (filters api 0 vascular gray clahe_col clahe_lum) [NdArray frame] of
        (r, h) \<Rightarrow> pixels (h ! r))"

text \<open>\<open>devices.index(selected_name)\<close>; \<open>None\<close> is \<open>ValueError\<close>.\<close>

fun index_of :: "string list \<Rightarrow> string \<Rightarrow> nat option" where
  "index_of [] name = None"
| "index_of (d # ds) name = (if d = name then Some 0 else map_option Suc (index_of ds name))"

section \<open>\<open>start_preview\<close>, \<open>stop_preview\<close>, \<open>preview_loop\<close>\<close>

text \<open>
  The result is the exception that leaves \<open>start_preview\<close>, if any, and the state at that
  point. When the resolution text cannot be taken apart, the fallback sets \<open>w\<close> and
  \<open>h\<close> only, and building \<open>cam_options\<close> reads the unassigned \<open>fps\<close>.
\<close>

definition start_preview :: "'img env \<Rightarrow> 'img app \<Rightarrow> exn option \<times> 'img app" where
  "start_preview e s =
     (let selected_name = device_menu s;
          devs = (if devices s \<noteq> [] then devices s else detect_devices (devices_answer e))
      in case index_of devs selected_name of
           None \<Rightarrow> (None, s\<lparr>errors_shown := errors_shown s + 1\<rparr>)
         | Some idx \<Rightarrow>
             (case parse_resolution (resolution_var s) of
                None \<Rightarrow> (Some UnboundLocalError, s)
              | Some (w, h, fps') \<Rightarrow>
                  (let s1 = s\<lparr>fps := fps'\<rparr> in
                   case open_camera e idx (w, h, fps') of
                     None \<Rightarrow> (Some CaptureError, s1)
                   | Some frames \<Rightarrow>
                       (let s2 = s1\<lparr>stream := Some frames, previewing := True\<rparr> in
                        case preview_canvas_size w h of
                          Inl err \<Rightarrow> (Some err, s2)
                        | Inr size' \<Rightarrow>
                            (None, s2\<lparr>canvas := size', preview_thread := Running\<rparr>)))))"

definition stop_preview :: "'img app \<Rightarrow> 'img app" where
  "stop_preview s = s\<lparr>previewing := False, stream := None\<rparr>"

text \<open>
  One turn of the \<open>while self.previewing\<close> loop. Reading from a stream that has been
  set to \<open>None\<close> raises in the thread.
\<close>

definition preview_loop_step :: "'img cv2 \<Rightarrow> 'img app \<Rightarrow> 'img app" where
  "preview_loop_step api s =
     (if preview_thread s \<noteq> Running then s
      else if \<not> previewing s then s\<lparr>preview_thread := Ended\<rparr>
      else
        (case stream s of
           None \<Rightarrow> s\<lparr>preview_thread := Crashed AttributeError\<rparr>
         | Some [] \<Rightarrow> s\<lparr>preview_thread := Ended\<rparr>
         | Some (frame # rest) \<Rightarrow>
             (let frame' = filters_frame api frame (filter_toggle s) (gray_mode s)
                             (clahe_color s) (clahe_l s);
                  pv = px_resize api frame' (canvas s)
              in s\<lparr>stream := Some rest,
                   latest_frame := Some (px_cvtColor api pv COLOR_BGR2RGB),
                   pulled := pulled s @ [(frame, Preview)],
                   filter_calls := filter_calls s + 1,
                   delivered := delivered s @ [(frame', Preview)]\<rparr>)))"

section \<open>\<open>start_record\<close>, \<open>stop_record\<close>, \<open>record_loop\<close>, \<open>on_close\<close>\<close>

text \<open>The \<open>options\<close> dictionary handed to \<open>WriteGear\<close>.\<close>

definition encoder_options :: "string \<Rightarrow> int \<Rightarrow> int \<Rightarrow> (string \<rightharpoonup> pyval)" where
  "encoder_options codec quality' f =
     (let options = [''-vcodec'' \<mapsto> PyStr codec,
                     ''-preset'' \<mapsto> PyStr ''medium'',
                     ''-pix_fmt'' \<mapsto> PyStr ''yuv420p'',
                     ''-movflags'' \<mapsto> PyStr ''+faststart'',
                     ''-input_framerate'' \<mapsto> PyInt f]
      in if codec = ''libx264'' then options(''-crf'' \<mapsto> PyStr (str_int quality'))
         else if codec = ''h264_qsv'' then options(''-global_quality'' \<mapsto> PyStr (str_int quality'))
         else options)"

datatype outcome = Refused | Raised exn | EncoderFailed | Started

definition start_record :: "'img env \<Rightarrow> 'img app \<Rightarrow> outcome \<times> 'img app" where
  "start_record e s =
     (let output_path = target_dir e @ now e @ EXT;
          s0 = s\<lparr>output_var := output_path\<rparr>;
          parsed = parse_resolution (resolution_var s0);
          w = (case parsed of Some (w, h, fps') \<Rightarrow> w | None \<Rightarrow> 640);
          h = (case parsed of Some (w, h, fps') \<Rightarrow> h | None \<Rightarrow> 480);
          s1 = (case parsed of Some (w, h, fps') \<Rightarrow> s0\<lparr>fps := fps'\<rparr> | None \<Rightarrow> s0);
          f = fps s1;
          out = strip (output_var s1);
          quality' = quality s1
      in case duration s1 of
           None \<Rightarrow> (Refused, s1\<lparr>errors_shown := errors_shown s1 + 1\<rparr>)
         | Some dur \<Rightarrow>
             if w \<le> 0 \<or> h \<le> 0 \<or> f \<le> 0 \<or> dur \<le> 0 \<or> \<not> endswith (lower out) EXT
             then (Refused, s1\<lparr>errors_shown := errors_shown s1 + 1\<rparr>)
             else
               (let options = encoder_options (CODEC s1) quality' f;
                    (raised, s2) = (if \<not> previewing s1 then start_preview e s1 else (None, s1))
                in case raised of
                     Some err \<Rightarrow> (Raised err, s2)
                   | None \<Rightarrow>
                       if \<not> writer_opens e
                       then (EncoderFailed, s2\<lparr>errors_shown := errors_shown s2 + 1\<rparr>)
                       else
                         (Started,
                          s2\<lparr>writer := Some \<lparr>wg_output = out, wg_options = options,
                                               written = [], closes = 0\<rparr>,
                              writers_opened := writers_opened s2 + 1,
                              recording := True,
                              remaining := Some dur,
                              record_thread := Running,
                              record_args := (w, h, dur)\<rparr>)))"

definition stop_record :: "'img app \<Rightarrow> 'img app" where
  "stop_record s =
     s\<lparr>recording := False,
        writer := (case writer s of
                     None \<Rightarrow> None
                   | Some wg \<Rightarrow> Some (wg\<lparr>closes := closes wg + 1\<rparr>)),
        infos_shown := infos_shown s + 1\<rparr>"

text \<open>
  One turn of the \<open>while\<close> loop of \<open>record_loop\<close>; \<open>elapsed\<close> is what
  \<open>time.time() - start_time\<close> evaluates to in the loop condition. When the loop is left,
  by its condition or by \<open>break\<close>, the thread calls \<open>stop_record\<close> and ends.
  Reading from a stream that is \<open>None\<close>, or writing to a writer that is \<open>None\<close>,
  raises in the thread, which then ends without calling \<open>stop_record\<close>.
\<close>

definition record_loop_step :: "'img cv2 \<Rightarrow> rat \<Rightarrow> 'img app \<Rightarrow> 'img app" where
  "record_loop_step api elapsed s =
     (if record_thread s \<noteq> Running then s
      else
        (let dur = snd (snd (record_args s)) in
         if recording s \<and> elapsed < of_int dur then
           (case stream s of
              None \<Rightarrow> s\<lparr>record_thread := Crashed AttributeError\<rparr>
            | Some [] \<Rightarrow> (stop_record s)\<lparr>record_thread := Ended\<rparr>
            | Some (frame # rest) \<Rightarrow>
                (let frame' = filters_frame api frame (filter_toggle s) (gray_mode s)
                                (clahe_color s) (clahe_l s);
                     s1 = s\<lparr>stream := Some rest,
                            pulled := pulled s @ [(frame, Recording)],
                            filter_calls := filter_calls s + 1\<rparr>
                 in case writer s1 of
                      None \<Rightarrow> s1\<lparr>record_thread := Crashed AttributeError\<rparr>
                    | Some wg \<Rightarrow>
                        s1\<lparr>writer := Some (wg\<lparr>written := written wg @ [frame']\<rparr>),
                           delivered := delivered s1 @ [(frame', Recording)]\<rparr>))
         else (stop_record s)\<lparr>record_thread := Ended\<rparr>))"

definition on_close :: "'img app \<Rightarrow> 'img app" where
  "on_close s =
     (let s1 = (if recording s then stop_record s else s)
      in if previewing s1 then stop_preview s1 else s1)"

text \<open>
  What can happen next: a turn of either loop, the stop button (\<open>stop_record\<close> on the
  control thread) or the window being closed.
\<close>

datatype event = PreviewTurn | RecordTurn rat | StopButton | CloseWindow

fun step :: "'img cv2 \<Rightarrow> 'img app \<Rightarrow> event \<Rightarrow> 'img app" where
  "step api s PreviewTurn = preview_loop_step api s"
| "step api s (RecordTurn elapsed) = record_loop_step api elapsed s"
| "step api s StopButton = stop_record s"
| "step api s CloseWindow = on_close s"

definition run :: "'img cv2 \<Rightarrow> event list \<Rightarrow> 'img app \<Rightarrow> 'img app" where
  "run api evs s = foldl (step api) s evs"

section \<open>Concrete inputs\<close>

text \<open>
  A format listing whose motion-JPEG line advertises a zero size and a zero frame rate.
\<close>

definition zero_size_answer :: "string \<Rightarrow> completed option" where
  "zero_size_answer device_name =
     Some (Completed 1 [] ''[dshow]   vcodec=mjpeg  min s=0x0 fps=0 max s=0x0 fps=0'')"

text \<open>
  A small image library to run the chain on: an image is a list of numbers, and every
  primitive returns its first argument, except that \<open>zeros_like\<close> and \<open>full_like\<close>
  fill it with a constant.
\<close>

definition toy_cv2 :: "nat list cv2" where
  "toy_cv2 =
     \<lparr>px_cvtColor = (\<lambda>x code. x),
      px_split = (\<lambda>x. (x, x, x)),
      px_merge = (\<lambda>xs. case xs of [] \<Rightarrow> [] | x # _ \<Rightarrow> x),
      px_clahe = (\<lambda>clip tiles x. x),
      px_GaussianBlur = (\<lambda>x ksize sigma. x),
      px_addWeighted = (\<lambda>x alpha y beta gamma. x),
      px_compare = (\<lambda>x v cmp. x),
      px_bitwise_and = (\<lambda>x y. x),
      px_bitwise_or = (\<lambda>x y. x),
      px_bitwise_not = (\<lambda>x. x),
      px_min = (\<lambda>x y. x),
      px_max = (\<lambda>x y. x),
      px_zeros_like = (\<lambda>x. map (\<lambda>p. 0) x),
      px_full_like = (\<lambda>x v. map (\<lambda>p. v) x),
      px_resize = (\<lambda>x size'. x)\<rparr>"

text \<open>
  The claim on the preview target in the words of the specification: the canvas is
  configured, and its width divided by its height equals \<open>w / h\<close>.
\<close>

definition target_ratio_exact :: "int \<Rightarrow> int \<Rightarrow> bool" where
  "target_ratio_exact w h =
     (case preview_canvas_size w h of
        Inl err \<Rightarrow> False
      | Inr (cw, ch) \<Rightarrow> ch \<noteq> 0 \<and> (of_int cw :: rat) / of_int ch = of_int w / of_int h)"

text \<open>
  The application after \<open>__init__\<close>, with the resolved codec, the selected device and the
  text of the resolution box: frame rate 30, duration 60, quality 23, nothing running.
\<close>

definition initial_app :: "string \<Rightarrow> string \<Rightarrow> string \<Rightarrow> 'img app" where
  "initial_app codec device res_text =
     \<lparr>CODEC = codec, devices = [], device_menu = device, resolution_var = res_text,
      fps = 30, duration = Some 60, output_var = [], quality = 23,
      recording = False, previewing = False, stream = None, writer = None,
      latest_frame = None, gray_mode = False, filter_toggle = False,
      clahe_color = False, clahe_l = False, remaining = None,
      canvas = (PREVIEW_WIDTH, PREVIEW_HEIGHT),
      preview_thread = NotStarted, record_thread = NotStarted, record_args = (0, 0, 0),
      pulled = [], filter_calls = 0, delivered = [], writers_opened = 0,
      errors_shown = 0, infos_shown = 0\<rparr>"

text \<open>
  The application while a 60 second recording of a 640x480 source is active: preview and
  recording loops are both running on the same stream, which still delivers \<open>frames\<close>.
  It is the state in which \<open>start_record\<close> leaves the initial application.
\<close>

definition live_app :: "'img list \<Rightarrow> 'img app" where
  "live_app frames =
     (initial_app ''libx264'' ''Default Camera'' ''640x480@30fps'')
       \<lparr>output_var := ''recordings/20250101_120000.mp4'',
        recording := True, previewing := True, stream := Some frames,
        writer := Some \<lparr>wg_output = ''recordings/20250101_120000.mp4'',
                         wg_options = encoder_options ''libx264'' 23 30,
                         written = [], closes = 0\<rparr>,
        remaining := Some 60, canvas := (1280, 960),
        preview_thread := Running, record_thread := Running,
        record_args := (640, 480, 60), writers_opened := 1\<rparr>"

text \<open>
  Surroundings in which everything works: the device listing raises (so the only device is
  the placeholder), the camera opens and delivers three frames, the encoder can be built.
\<close>

definition studio_env :: "nat list env" where
  "studio_env =
     \<lparr>devices_answer = None,
      open_camera = (\<lambda>idx mode. Some [[1], [2], [3]]),
      writer_opens = True,
      now = ''20250101_120000'',
      target_dir = ''recordings/''\<rparr>"

section \<open>Properties of the filter chain\<close>

lemma extends_alloc: "extends_heap (alloc v)"
  by (simp add: extends_heap_def alloc_def)

lemma extends_deref: "extends_heap (deref a)"
  by (simp add: extends_heap_def deref_def)

lemma extends_isinstance: "extends_heap (isinstance_UMat a)"
  by (simp add: extends_heap_def isinstance_UMat_def)

lemma extends_return: "extends_heap (State_Monad.return x)"
  by (simp add: extends_heap_def)

lemma extends_bind:
  assumes "extends_heap m" and "\<And>x. extends_heap (f x)"
  shows "extends_heap (State_Monad.bind m f)"
  unfolding extends_heap_def
proof
  fix h
  obtain x h1 where r: "run_state m h = (x, h1)" by (cases "run_state m h")
  from assms(1) r obtain n1 where h1: "h1 = h @ n1"
    unfolding extends_heap_def by (metis snd_conv)
  from assms(2) [of x] obtain n2 where "snd (run_state (f x) h1) = h1 @ n2"
    unfolding extends_heap_def by blast
  with r h1 show "\<exists>new. snd (run_state (State_Monad.bind m f) h) = h @ new"
    by simp
qed

lemma extends_case_prod:
  assumes "\<And>a b. extends_heap (f a b)"
  shows "extends_heap (case p of (a, b) \<Rightarrow> f a b)"
  using assms by (cases p) simp

lemma extends_if:
  assumes "extends_heap m" and "extends_heap n"
  shows "extends_heap (if b then m else n)"
  using assms by simp

lemma extends_traverse_deref: "extends_heap (State_Monad.traverse_list deref as)"
  by (induction as) (auto intro!: extends_bind extends_return extends_deref)

lemmas extends_intros =
  extends_bind extends_case_prod extends_if extends_alloc extends_deref extends_return
  extends_isinstance extends_traverse_deref

lemma extends_prims:
  "extends_heap (cv2_UMat a)" "extends_heap (umat_get a)"
  "extends_heap (cv2_cvtColor api a code)" "extends_heap (cv2_split api a)"
  "extends_heap (cv2_merge api as)" "extends_heap (clahe_apply api clip tiles a)"
  "extends_heap (cv2_GaussianBlur api a ks sg)"
  "extends_heap (cv2_addWeighted api a al b be ga)"
  "extends_heap (cv2_compare api a v cmp)"
  "extends_heap (cv2_bitwise_and api a b)" "extends_heap (cv2_bitwise_or api a b)"
  "extends_heap (cv2_bitwise_not api a)" "extends_heap (cv2_min api a b)"
  "extends_heap (cv2_max api a b)" "extends_heap (np_zeros_like api a)"
  "extends_heap (np_full_like api a n)"
  unfolding cv2_UMat_def umat_get_def cv2_cvtColor_def cv2_split_def cv2_merge_def
    clahe_apply_def cv2_GaussianBlur_def cv2_addWeighted_def cv2_compare_def
    cv2_bitwise_and_def cv2_bitwise_or_def cv2_bitwise_not_def cv2_min_def cv2_max_def
    np_zeros_like_def np_full_like_def
  by (intro extends_intros)+

lemma extends_gray_filter: "extends_heap (gray_filter api a)"
  unfolding gray_filter_def by (intro extends_intros extends_prims)

lemma extends_simple_CLAHE_RGB: "extends_heap (simple_CLAHE_RGB api a)"
  unfolding simple_CLAHE_RGB_def by (intro extends_intros extends_prims)

lemma extends_simple_CLAHE_L: "extends_heap (simple_CLAHE_L api a)"
  unfolding simple_CLAHE_L_def by (intro extends_intros extends_prims)

lemma extends_vascular: "extends_heap (vascular_enhance_filter_ocl api a)"
  unfolding vascular_enhance_filter_ocl_def by (intro extends_intros extends_prims)

lemma extends_filters: "extends_heap (filters api a v g cc cl)"
  unfolding filters_def
  by (intro extends_intros extends_prims extends_gray_filter extends_simple_CLAHE_RGB
      extends_simple_CLAHE_L extends_vascular)


lemma hoare_bind:
  assumes "hoare P m R" and "\<And>x. hoare (R x) (f x) Q"
  shows "hoare P (State_Monad.bind m f) Q"
  using assms unfolding hoare_def by (auto split: prod.splits)

lemma hoare_bind_any:
  assumes "\<And>x. hoare (\<lambda>_. True) (f x) Q"
  shows "hoare (\<lambda>_. True) (State_Monad.bind m f) Q"
  using assms unfolding hoare_def by (auto split: prod.splits)

lemma hoare_case_prod:
  assumes "\<And>a b. hoare P (f a b) Q"
  shows "hoare P (case p of (a, b) \<Rightarrow> f a b) Q"
  using assms by (cases p) simp

lemma hoare_alloc_UMat: "hoare (\<lambda>_. True) (alloc (UMat x)) umat_at"
  by (simp add: hoare_def alloc_def umat_at_def)

lemma hoare_stage:
  assumes "hoare (\<lambda>_. True) m umat_at"
  shows "hoare (umat_at i) (if b then m else State_Monad.return i) umat_at"
  using assms unfolding hoare_def by simp

lemma umat_prims:
  "hoare (\<lambda>_. True) (cv2_UMat a) umat_at"
  "hoare (\<lambda>_. True) (cv2_cvtColor api a code) umat_at"
  "hoare (\<lambda>_. True) (cv2_merge api as) umat_at"
  unfolding cv2_UMat_def cv2_cvtColor_def cv2_merge_def
  by (intro hoare_bind_any hoare_alloc_UMat)+

lemma umat_gray_filter: "hoare (\<lambda>_. True) (gray_filter api a) umat_at"
  unfolding gray_filter_def by (intro hoare_bind_any hoare_case_prod umat_prims)

lemma umat_simple_CLAHE_RGB: "hoare (\<lambda>_. True) (simple_CLAHE_RGB api a) umat_at"
  unfolding simple_CLAHE_RGB_def by (intro hoare_bind_any hoare_case_prod umat_prims)

lemma umat_simple_CLAHE_L: "hoare (\<lambda>_. True) (simple_CLAHE_L api a) umat_at"
  unfolding simple_CLAHE_L_def by (intro hoare_bind_any hoare_case_prod umat_prims)

lemma umat_vascular: "hoare (\<lambda>_. True) (vascular_enhance_filter_ocl api a) umat_at"
  unfolding vascular_enhance_filter_ocl_def
  by (intro hoare_bind_any hoare_case_prod umat_prims)

lemma hoare_return_array:
  "hoare (umat_at i)
     (State_Monad.bind (isinstance_UMat i)
        (\<lambda>is_umat. if is_umat then umat_get i else State_Monad.return i))
     array_on_top"
  by (simp add: hoare_def umat_at_def isinstance_UMat_def umat_get_def deref_def alloc_def
      array_on_top_def)

lemma filters_array_on_top: "hoare (\<lambda>_. True) (filters api a v g cc cl) array_on_top"
  unfolding filters_def
  apply (rule hoare_bind [where R = umat_at], rule umat_prims)
  apply (rule hoare_bind [where R = umat_at], rule hoare_stage, rule umat_vascular)
  apply (rule hoare_bind [where R = umat_at], rule hoare_stage, rule umat_simple_CLAHE_RGB)
  apply (rule hoare_bind [where R = umat_at], rule hoare_stage, rule umat_simple_CLAHE_L)
  apply (rule hoare_bind [where R = umat_at], rule hoare_stage, rule umat_gray_filter)
  apply (rule hoare_return_array)
  done

lemma allocates_bind:
  assumes "allocates m" and "\<And>x. extends_heap (f x)"
  shows "allocates (State_Monad.bind m f)"
  unfolding allocates_def
proof
  fix h
  obtain x h1 where r: "run_state m h = (x, h1)" by (cases "run_state m h")
  from assms(1) r obtain v n1 where h1: "h1 = h @ v # n1"
    unfolding allocates_def by (metis snd_conv)
  from assms(2) [of x] obtain n2 where "snd (run_state (f x) h1) = h1 @ n2"
    unfolding extends_heap_def by blast
  with r h1 show "\<exists>v new. snd (run_state (State_Monad.bind m f) h) = h @ v # new"
    by simp
qed

lemma allocates_cv2_UMat: "allocates (cv2_UMat a)"
  by (simp add: allocates_def cv2_UMat_def deref_def alloc_def)

lemma allocates_filters: "allocates (filters api a v g cc cl)"
  unfolding filters_def
  by (rule allocates_bind, rule allocates_cv2_UMat)
     (intro extends_intros extends_prims extends_gray_filter extends_simple_CLAHE_RGB
      extends_simple_CLAHE_L extends_vascular)

lemma filters_run:
  assumes "run_state (filters api a v g cc cl) h = (r, h')"
  shows "\<exists>v new. h' = h @ v # new" and "Suc r = length h'" and "\<not> is_UMat (h' ! r)"
proof -
  from allocates_filters [of api a v g cc cl] assms
  show "\<exists>v new. h' = h @ v # new"
    unfolding allocates_def by (metis snd_conv)
  from filters_array_on_top [of api a v g cc cl] assms
  show "Suc r = length h'" and "\<not> is_UMat (h' ! r)"
    unfolding hoare_def array_on_top_def by (metis fst_conv snd_conv)+
qed

lemma filters_disabled_run:
  "run_state (filters api a False False False False) h =
     (Suc (length h), h @ [UMat (pixels (h ! a)), NdArray (pixels (h ! a))])"
  by (simp add: filters_def cv2_UMat_def deref_def alloc_def isinstance_UMat_def umat_get_def
      nth_append)

text \<open>
  C10. For every combination of the four flags the chain leaves the caller's frame as it
  was: the object at the input address is the same after the call, as is every other object
  that existed before, and the returned frame is a NumPy array at a new address.
\<close>

theorem filters_never_mutates_input:
  assumes "image' < length h"
  shows "case run_state (filters api image' v g cc cl) h of
           (r, h') \<Rightarrow> h' ! image' = h ! image' \<and> take (length h) h' = h \<and>
                      r \<noteq> image' \<and> length h \<le> r \<and> r < length h' \<and> \<not> is_UMat (h' ! r)"
proof -
  obtain r h' where run: "run_state (filters api image' v g cc cl) h = (r, h')"
    by (cases "run_state (filters api image' v g cc cl) h")
  from filters_run [OF run] obtain v new where
    h': "h' = h @ v # new" and top: "Suc r = length h'" and arr: "\<not> is_UMat (h' ! r)"
    by blast
  from h' assms have "h' ! image' = h ! image'" by (simp add: nth_append)
  moreover from h' have "take (length h) h' = h" by simp
  moreover from h' top assms have "r \<noteq> image'" "length h \<le> r" "r < length h'" by auto
  ultimately show ?thesis using run arr by simp
qed

text \<open>
  C6. With all four flags disabled the chain returns an array whose pixels are those of the
  input and leaves the input as it was; applying the chain again to the result, again with
  all flags disabled, gives the same pixels once more and changes neither the input nor the
  first result.
\<close>

theorem filters_all_disabled_identity:
  assumes "image' < length h"
  shows "case run_state (filters api image' False False False False) h of
           (r, h') \<Rightarrow>
             h' ! r = NdArray (pixels (h ! image')) \<and> h' ! image' = h ! image' \<and>
             (case run_state (filters api r False False False False) h' of
                (r2, h2) \<Rightarrow>
                  h2 ! r2 = NdArray (pixels (h ! image')) \<and> h2 ! image' = h ! image' \<and>
                  h2 ! r = h' ! r)"
  using assms by (simp add: filters_disabled_run nth_append)

section \<open>Device enumeration\<close>

lemma device_names_no_video:
  "filter (\<lambda>line. contains ''(video)'' line \<and> contains [CHR 0x22] line) lines = [] \<Longrightarrow>
   device_names lines = Some []"
  by (induction lines) (auto split: if_splits)

text \<open>
  C7. Device enumeration never returns an empty list. When the listing raises (also by a
  non-zero return code, since it runs with \<open>check=True\<close>), or succeeds without a line
  that names a video device, the result is the one-element list holding the placeholder
  \<open>"Default Camera"\<close>.
\<close>

theorem detect_devices_never_empty:
  "detect_devices answer \<noteq> [] \<and>
   (subprocess_run True answer = None \<or>
    (\<exists>r. subprocess_run True answer = Some r \<and> video_lines (stderr r) = [])
    \<longrightarrow> detect_devices answer = [default_camera])"
  by (auto simp: detect_devices_def video_lines_def device_names_no_video
           split: option.splits)

text \<open>The two cases of C7 at concrete answers: a listing that raises and one without devices.\<close>

theorem detect_devices_never_empty_witness:
  "detect_devices None = [''Default Camera''] \<and>
   detect_devices (Some (Completed 0 [] ''no devices here'')) = [''Default Camera'']"
proof -
  have a: "subprocess_run True None = None"
    by (simp add: subprocess_run_def)
  have b: "subprocess_run True (Some (Completed 0 [] ''no devices here''))
             = Some (Completed 0 [] ''no devices here'')"
    by (simp add: subprocess_run_def)
  have c: "video_lines (stderr (Completed 0 [] ''no devices here'')) = []"
    by (simp add: video_lines_def splitlines_def is_linebreak_def startswith_def)
  show ?thesis
    using detect_devices_never_empty [of None]
      detect_devices_never_empty [of "Some (Completed 0 [] ''no devices here'')"] a b c
    by (simp add: default_camera_def)
qed

section \<open>Capability probe\<close>

lemma digit_val_nonneg: "is_digit c \<Longrightarrow> 0 \<le> digit_val c"
  by (auto simp: is_digit_def digit_val_def)

lemma foldl_digits_nonneg:
  "\<forall>c \<in> set ds. is_digit c \<Longrightarrow> 0 \<le> a \<Longrightarrow> 0 \<le> foldl (\<lambda>a c. 10 * a + digit_val c) a ds"
  by (induction ds arbitrary: a) (auto simp: digit_val_nonneg)

lemma int_of_digits_nonneg: "0 \<le> int_of_digits (takeWhile is_digit s)"
  unfolding int_of_digits_def
  by (rule foldl_digits_nonneg) (auto dest: set_takeWhileD)

lemma match_here_nonneg:
  "match_here s = Some (w, h, f) \<Longrightarrow> 0 \<le> w \<and> 0 \<le> h \<and> 0 \<le> f"
  by (auto simp: match_here_def Let_def int_of_digits_nonneg split: if_splits)

lemma re_search_nonneg:
  "re_search s = Some (w, h, f) \<Longrightarrow> 0 \<le> w \<and> 0 \<le> h \<and> 0 \<le> f"
  by (induction s) (auto dest: match_here_nonneg split: option.splits)

lemma supported_of_nonneg:
  "(w, h, f) \<in> set (supported_of lines) \<Longrightarrow> 0 \<le> w \<and> 0 \<le> h \<and> 0 \<le> f"
  by (induction lines) (auto dest: re_search_nonneg split: if_splits option.splits)

text \<open>
  C4 as stated fails: the pattern \<open>\d+\<close> also matches \<open>0\<close>, and nothing in the probe
  rejects a zero. A format line advertising \<open>0x0\<close> at \<open>fps=0\<close> yields the tuple
  \<open>(0, 0, 0)\<close>.
\<close>

theorem zero_size_capability:
  "get_supported_resolutions 0 None zero_size_answer = [(0, 0, 0)]"
  by code_simp

text \<open>
  C4, amended. Every capability tuple returned by the probe has width, height and frame
  rate that are non-negative, for every answer of the backend; a component can be zero.
\<close>

theorem capabilities_nonnegative:
  "\<forall>(w, h, f) \<in> set (get_supported_resolutions device_index devs opts). 0 \<le> w \<and> 0 \<le> h \<and> 0 \<le> f"
  by (auto simp: get_supported_resolutions_def Let_def dest: supported_of_nonneg
           split: option.splits if_splits)

text \<open>The bound of C4 at the zero-size listing.\<close>

theorem capabilities_nonnegative_witness:
  "(0, 0, 0) \<in> set (get_supported_resolutions 0 None zero_size_answer) \<and>
   (0::int) \<le> 0"
proof -
  have "get_supported_resolutions 0 None zero_size_answer = [(0, 0, 0)]"
    by code_simp
  then have "(0, 0, 0) \<in> set (get_supported_resolutions 0 None zero_size_answer)"
    by simp
  with capabilities_nonnegative [of 0 None zero_size_answer] show ?thesis
    by blast
qed

section \<open>Encoder probe\<close>

text \<open>
  C3 as stated fails: \<open>select_codec\<close> keeps no result. On a machine whose hardware
  encoder works, a second call runs the encoder listing and the smoke encode once more.
\<close>

theorem select_codec_probes_again:
  "listing_runs (snd (select_codec (snd (select_codec qsv_world))))
     = listing_runs (snd (select_codec qsv_world)) + 1 \<and>
   smoke_runs (snd (select_codec (snd (select_codec qsv_world))))
     = smoke_runs (snd (select_codec qsv_world)) + 1"
  by code_simp

lemma select_codec_answers:
  "encoders_answer (snd (select_codec w)) = encoders_answer w"
  "smoke_answer (snd (select_codec w)) = smoke_answer w"
  by (auto simp: select_codec_def Let_def split: option.splits)

lemma select_codec_runs:
  "listing_runs (snd (select_codec w)) = listing_runs w + 1"
  "smoke_runs (snd (select_codec w)) =
     (if lists_preferred (encoders_answer w (listing_runs w)) then smoke_runs w + 1
      else smoke_runs w)"
  "fst (select_codec w) =
     (if lists_preferred (encoders_answer w (listing_runs w))
      then smoke_test (smoke_answer w (smoke_runs w)) else fallback_codec)"
  by (auto simp: select_codec_def lists_preferred_def Let_def split: option.splits)

text \<open>
  C3, amended. \<open>select_codec\<close> keeps no result. Every call runs the encoder listing
  once more, and runs the smoke encode once more exactly when that listing names the
  hardware encoder; it returns the outcome of that smoke test, and the software codec when
  the listing does not name the hardware encoder. A second call does all of
  this again, on the answers the external tool gives then. It returns the same codec as the
  first call when the tool answers the second listing and the second smoke encode as it
  answered the first.
\<close>

theorem select_codec_not_memoized:
  "listing_runs (snd (select_codec w)) = listing_runs w + 1 \<and>
   smoke_runs (snd (select_codec w)) =
     (if lists_preferred (encoders_answer w (listing_runs w)) then smoke_runs w + 1
      else smoke_runs w) \<and>
   fst (select_codec w) =
     (if lists_preferred (encoders_answer w (listing_runs w))
      then smoke_test (smoke_answer w (smoke_runs w)) else fallback_codec) \<and>
   listing_runs (snd (select_codec (snd (select_codec w)))) = listing_runs w + 2 \<and>
   smoke_runs (snd (select_codec (snd (select_codec w)))) =
     (if lists_preferred (encoders_answer w (listing_runs w + 1))
      then smoke_runs (snd (select_codec w)) + 1 else smoke_runs (snd (select_codec w))) \<and>
   fst (select_codec (snd (select_codec w))) =
     (if lists_preferred (encoders_answer w (listing_runs w + 1))
      then smoke_test (smoke_answer w (smoke_runs (snd (select_codec w))))
      else fallback_codec) \<and>
   (encoders_answer w (listing_runs w + 1) = encoders_answer w (listing_runs w) \<and>
    smoke_answer w (smoke_runs (snd (select_codec w))) = smoke_answer w (smoke_runs w)
    \<longrightarrow> fst (select_codec (snd (select_codec w))) = fst (select_codec w))"
  by (simp add: select_codec_runs select_codec_answers)

text \<open>C3, amended, on the machine with a working hardware encoder.\<close>

theorem select_codec_not_memoized_witness:
  "fst (select_codec (snd (select_codec qsv_world))) = ''h264_qsv'' \<and>
   fst (select_codec qsv_world) = ''h264_qsv'' \<and>
   listing_runs (snd (select_codec (snd (select_codec qsv_world)))) = 2 \<and>
   smoke_runs (snd (select_codec (snd (select_codec qsv_world)))) = 2"
proof -
  have a: "encoders_answer qsv_world (listing_runs qsv_world + 1)
             = encoders_answer qsv_world (listing_runs qsv_world)"
    by (simp add: qsv_world_def)
  have b: "smoke_answer qsv_world (smoke_runs (snd (select_codec qsv_world)))
             = smoke_answer qsv_world (smoke_runs qsv_world)"
    by (simp add: qsv_world_def)
  have c: "fst (select_codec qsv_world) = ''h264_qsv''"
    by code_simp
  have d: "listing_runs qsv_world = 0" "smoke_runs qsv_world = 0"
    by (simp_all add: qsv_world_def)
  have e: "lists_preferred (encoders_answer qsv_world 0)"
          "lists_preferred (encoders_answer qsv_world 1)"
    by code_simp+
  show ?thesis
    using select_codec_not_memoized [of qsv_world] a b c d e by simp
qed

section \<open>Filter chain witnesses\<close>

text \<open>C10 with all four stages enabled, on a heap that holds one frame.\<close>

theorem filters_never_mutates_input_witness:
  "(0::nat) < length [NdArray [1, 2, 3::nat]] \<and>
   (case run_state (filters toy_cv2 0 True True True True) [NdArray [1, 2, 3]] of
      (r, h') \<Rightarrow> h' ! 0 = NdArray [1, 2, 3] \<and> r \<noteq> 0)"
  using filters_never_mutates_input [of 0 "[NdArray [1, 2, 3::nat]]" toy_cv2 True True True True]
  by (simp split: prod.splits)

text \<open>C6 on a heap that holds one frame.\<close>

theorem filters_all_disabled_identity_witness:
  "(0::nat) < length [NdArray [1, 2, 3::nat]] \<and>
   (case run_state (filters toy_cv2 0 False False False False) [NdArray [1, 2, 3]] of
      (r, h') \<Rightarrow> h' ! r = NdArray [1, 2, 3] \<and> h' ! 0 = NdArray [1, 2, 3] \<and>
        (case run_state (filters toy_cv2 r False False False False) h' of
           (r2, h2) \<Rightarrow> h2 ! r2 = NdArray [1, 2, 3] \<and> h2 ! 0 = NdArray [1, 2, 3]))"
  using filters_all_disabled_identity [of 0 "[NdArray [1, 2, 3::nat]]" toy_cv2]
  by (simp split: prod.splits)

section \<open>Preview canvas\<close>

text \<open>
  C8 as stated fails: the canvas height is \<open>int(1280 / (w / h))\<close>, an integer. For a
  3 by 2 capture the target is 1280 by 853, and 1280 / 853 is not 3 / 2.
\<close>

theorem canvas_3_by_2_not_exact:
  "preview_canvas_size 3 2 = Inr (1280, 853) \<and> \<not> target_ratio_exact 3 2"
proof -
  have "preview_canvas_size 3 2 = Inr (1280, 853)"
    by code_simp
  then show ?thesis
    by (simp add: target_ratio_exact_def)
qed

lemma int_truediv_scale:
  assumes "k \<noteq> 0"
  shows "int_truediv (a * k) (b * k) = int_truediv a b"
proof (cases "b = 0")
  case True
  then show ?thesis by (simp add: int_truediv_def)
next
  case False
  with assms have "(of_int (a * k) :: rat) / of_int (b * k) = of_int a / of_int b"
    by simp
  with assms False show ?thesis
    by (simp add: int_truediv_def)
qed

lemma preview_canvas_size_scale:
  "k \<noteq> 0 \<Longrightarrow> preview_canvas_size (a * k) (b * k) = preview_canvas_size a b"
  by (simp add: preview_canvas_size_def int_truediv_scale)

lemma canvas_16_9: "preview_canvas_size 16 9 = Inr (1280, 720)"
  by code_simp

lemma canvas_4_3: "preview_canvas_size 4 3 = Inr (1280, 960)"
  by code_simp

lemma canvas_width: "preview_canvas_size w h = Inr (cw, ch) \<Longrightarrow> cw = 1280"
  by (auto simp: preview_canvas_size_def Let_def PREVIEW_WIDTH_def split: sum.splits)

lemma exact_16_9: "0 < k \<Longrightarrow> target_ratio_exact (16 * k) (9 * k)"
  by (simp add: target_ratio_exact_def preview_canvas_size_scale canvas_16_9)

lemma exact_4_3: "0 < k \<Longrightarrow> target_ratio_exact (4 * k) (3 * k)"
  by (simp add: target_ratio_exact_def preview_canvas_size_scale canvas_4_3)

lemma exact_divides:
  assumes "0 < w" and "0 < h" and "target_ratio_exact w h"
  shows "w dvd 1280 * h"
proof -
  from assms(3) obtain cw ch where
    size: "preview_canvas_size w h = Inr (cw, ch)" and ch: "ch \<noteq> 0"
    and ratio: "(of_int cw :: rat) / of_int ch = of_int w / of_int h"
    by (auto simp: target_ratio_exact_def split: sum.splits)
  from size have cw: "cw = 1280" by (rule canvas_width)
  from ratio ch assms(2) have "(of_int cw :: rat) * of_int h = of_int w * of_int ch"
    by (simp add: field_simps)
  then have "(of_int (cw * h) :: rat) = of_int (w * ch)" by simp
  then have "cw * h = w * ch" by (simp only: of_int_eq_iff)
  with cw show ?thesis by (metis dvd_triv_left)
qed

lemma round_half_even_nonneg: "0 \<le> y \<Longrightarrow> 0 \<le> round_half_even y"
  by (auto simp: round_half_even_def Let_def)

lemma pow2_pos: "0 < pow2 e"
  by (simp add: pow2_def)

lemma round_double_nonneg:
  assumes "0 \<le> x"
  shows "0 \<le> round_double x"
proof (cases "x = 0")
  case True
  then show ?thesis by (simp add: round_double_def)
next
  case False
  with assms have x: "0 < x" by simp
  have "0 \<le> \<bar>x\<bar> / pow2 (max (ilog2 \<bar>x\<bar>) (- 1022) - 52)"
    using pow2_pos [of "max (ilog2 \<bar>x\<bar>) (- 1022) - 52"] by simp
  then have "0 \<le> round_half_even (\<bar>x\<bar> / pow2 (max (ilog2 \<bar>x\<bar>) (- 1022) - 52))"
    by (rule round_half_even_nonneg)
  with x pow2_pos [of "max (ilog2 \<bar>x\<bar>) (- 1022) - 52"] show ?thesis
    by (simp add: round_double_def Let_def)
qed

lemma canvas_of_positive:
  assumes "0 < w" and "0 < h"
  shows "preview_canvas_size w h =
     (if double_max < round_double (of_int w / of_int h) then Inl OverflowError
      else if round_double (of_int w / of_int h) = 0 then Inl ZeroDivisionError
      else if double_max < round_double (1280 / round_double (of_int w / of_int h))
      then Inl OverflowError
      else Inr (1280, \<lfloor>round_double (1280 / round_double (of_int w / of_int h))\<rfloor>))"
proof -
  from assms have "(0::rat) \<le> of_int w / of_int h" by simp
  then have a: "0 \<le> round_double (of_int w / of_int h)"
    by (rule round_double_nonneg)
  then have "(0::rat) \<le> 1280 / round_double (of_int w / of_int h)" by simp
  then have q: "0 \<le> round_double (1280 / round_double (of_int w / of_int h))"
    by (rule round_double_nonneg)
  from assms a q show ?thesis
    by (simp add: preview_canvas_size_def int_truediv_def float_truediv_def Let_def
        PREVIEW_WIDTH_def)
qed

text \<open>
  C8, amended. For a capture resolution with \<open>w > 0\<close> and \<open>h > 0\<close> the preview target
  is 1280 wide and \<open>int(1280 / (w / h))\<close> high: both divisions are rounded to the nearest
  double and the quotient is rounded down to an integer (for extreme ratios a division
  overflows or divides by zero, and no target is configured). For every 16:9 resolution
  the target is 1280 by 720 and for every 4:3 resolution 1280 by 960, and there the aspect
  ratio of the target equals \<open>w / h\<close> exactly. In general the ratio can be exact only when
  \<open>w\<close> divides \<open>1280 * h\<close>.
\<close>

theorem preview_ratio_exact_cases:
  "(0 < w \<and> 0 < h \<longrightarrow>
      preview_canvas_size w h =
        (if double_max < round_double (of_int w / of_int h) then Inl OverflowError
         else if round_double (of_int w / of_int h) = 0 then Inl ZeroDivisionError
         else if double_max < round_double (1280 / round_double (of_int w / of_int h))
         then Inl OverflowError
         else Inr (1280, \<lfloor>round_double (1280 / round_double (of_int w / of_int h))\<rfloor>))) \<and>
   (0 < k \<longrightarrow>
      preview_canvas_size (16 * k) (9 * k) = Inr (1280, 720) \<and>
      target_ratio_exact (16 * k) (9 * k)) \<and>
   (0 < k \<longrightarrow>
      preview_canvas_size (4 * k) (3 * k) = Inr (1280, 960) \<and>
      target_ratio_exact (4 * k) (3 * k)) \<and>
   (0 < w \<and> 0 < h \<and> target_ratio_exact w h \<longrightarrow> w dvd 1280 * h)"
  using canvas_of_positive [of w h] exact_16_9 [of k] exact_4_3 [of k] exact_divides [of w h]
    preview_canvas_size_scale [of k 16 9] preview_canvas_size_scale [of k 4 3]
    canvas_16_9 canvas_4_3
  by auto

text \<open>C8, amended, at 1280 by 720 and at 640 by 480.\<close>

theorem preview_ratio_exact_cases_witness:
  "preview_canvas_size 1280 720 = Inr (1280, 720) \<and> target_ratio_exact 1280 720 \<and>
   preview_canvas_size 640 480 = Inr (1280, 960) \<and> target_ratio_exact 640 480 \<and>
   \<lfloor>round_double (1280 / round_double (of_int 1280 / of_int 720))\<rfloor> = 720 \<and>
   (1280::int) dvd 1280 * 720"
proof -
  have "(0::int) < 80 \<longrightarrow>
          preview_canvas_size (16 * 80) (9 * 80) = Inr (1280, 720) \<and>
          target_ratio_exact (16 * 80) (9 * 80)"
    using preview_ratio_exact_cases [where k = 80] by blast
  then have a: "preview_canvas_size 1280 720 = Inr (1280, 720) \<and> target_ratio_exact 1280 720"
    by simp
  have "(0::int) < 160 \<longrightarrow>
          preview_canvas_size (4 * 160) (3 * 160) = Inr (1280, 960) \<and>
          target_ratio_exact (4 * 160) (3 * 160)"
    using preview_ratio_exact_cases [where k = 160] by blast
  then have b: "preview_canvas_size 640 480 = Inr (1280, 960) \<and> target_ratio_exact 640 480"
    by simp
  have pos: "(0::int) < 1280 \<and> (0::int) < 720"
    by simp
  have "preview_canvas_size 1280 720 =
          (if double_max < round_double (of_int 1280 / of_int 720) then Inl OverflowError
           else if round_double (of_int 1280 / of_int 720) = 0 then Inl ZeroDivisionError
           else if double_max < round_double (1280 / round_double (of_int 1280 / of_int 720))
           then Inl OverflowError
           else Inr (1280, \<lfloor>round_double (1280 / round_double (of_int 1280 / of_int 720))\<rfloor>))"
    using preview_ratio_exact_cases [where w = 1280 and h = 720] pos by blast
  with a have c: "\<lfloor>round_double (1280 / round_double (of_int 1280 / of_int 720))\<rfloor> = 720"
    by (simp split: if_splits)
  have d: "(1280::int) dvd 1280 * 720"
    using preview_ratio_exact_cases [where w = 1280 and h = 720] pos a by blast
  from a b c d show ?thesis by blast
qed

section \<open>Starting a recording\<close>

lemma start_record_started:
  assumes "fst (start_record e s) = Started"
  shows "\<exists>f out. writer (snd (start_record e s)) =
           Some \<lparr>wg_output = out, wg_options = encoder_options (CODEC s) (quality s) f,
                 written = [], closes = 0\<rparr>"
  using assms
  by (auto simp: start_record_def Let_def split: option.splits if_splits prod.splits)

lemma encoder_options_qsv:
  "encoder_options ''h264_qsv'' q f ''-global_quality'' = Some (PyStr (str_int q))"
  "encoder_options ''h264_qsv'' q f ''-crf'' = None"
  by (simp_all add: encoder_options_def)

lemma encoder_options_x264:
  "encoder_options ''libx264'' q f ''-crf'' = Some (PyStr (str_int q))"
  "encoder_options ''libx264'' q f ''-global_quality'' = None"
  by (simp_all add: encoder_options_def)

text \<open>
  C5. When a recording starts, the encoder is constructed with the quality value under a
  parameter name chosen by the resolved codec: \<open>-global_quality\<close> and no \<open>-crf\<close> for
  the hardware encoder \<open>h264_qsv\<close>, \<open>-crf\<close> and no \<open>-global_quality\<close> for the
  software encoder \<open>libx264\<close>, whatever the quality value is. The two names differ, and
  neither codec is given the other's name.
\<close>

theorem quality_parameter_by_codec:
  assumes "fst (start_record e s) = Started"
  shows "\<exists>wg. writer (snd (start_record e s)) = Some wg \<and>
           (CODEC s = ''h264_qsv'' \<longrightarrow>
              wg_options wg ''-global_quality'' = Some (PyStr (str_int (quality s))) \<and>
              wg_options wg ''-crf'' = None) \<and>
           (CODEC s = ''libx264'' \<longrightarrow>
              wg_options wg ''-crf'' = Some (PyStr (str_int (quality s))) \<and>
              wg_options wg ''-global_quality'' = None)"
proof -
  from start_record_started [OF assms] obtain f out where
    "writer (snd (start_record e s)) =
       Some \<lparr>wg_output = out, wg_options = encoder_options (CODEC s) (quality s) f,
             written = [], closes = 0\<rparr>"
    by blast
  then show ?thesis
    by (auto simp: encoder_options_qsv encoder_options_x264)
qed

lemma started_qsv:
  "fst (start_record studio_env
          ((initial_app ''h264_qsv'' ''Default Camera'' ''1280x720@30fps'')
             \<lparr>previewing := True, stream := Some [[1], [2]]\<rparr>)) = Started"
  by code_simp

lemma started_x264:
  "fst (start_record studio_env
          ((initial_app ''libx264'' ''Default Camera'' ''1280x720@30fps'')
             \<lparr>previewing := True, stream := Some [[1], [2]]\<rparr>)) = Started"
  by code_simp

text \<open>C5 for both codecs at the default quality 23, started while the preview is running.\<close>

theorem quality_parameter_by_codec_witness:
  "(\<exists>wg. writer (snd (start_record studio_env
             ((initial_app ''h264_qsv'' ''Default Camera'' ''1280x720@30fps'')
                \<lparr>previewing := True, stream := Some [[1], [2]]\<rparr>))) = Some wg \<and>
          wg_options wg ''-global_quality'' = Some (PyStr ''23'') \<and>
          wg_options wg ''-crf'' = None) \<and>
   (\<exists>wg. writer (snd (start_record studio_env
             ((initial_app ''libx264'' ''Default Camera'' ''1280x720@30fps'')
                \<lparr>previewing := True, stream := Some [[1], [2]]\<rparr>))) = Some wg \<and>
          wg_options wg ''-crf'' = Some (PyStr ''23'') \<and>
          wg_options wg ''-global_quality'' = None)"
proof -
  have q: "str_int 23 = ''23''"
    by code_simp
  show ?thesis
    using quality_parameter_by_codec [OF started_qsv] quality_parameter_by_codec [OF started_x264] q
    by (simp add: initial_app_def)
qed

text \<open>
  C9. Let \<open>w\<close>, \<open>h\<close> and \<open>f\<close> be the width, height and frame rate that
  \<open>start_record\<close> works with (taken from the resolution text, or 640, 480 and the stored
  frame rate when the text cannot be taken apart), \<open>dur\<close> the duration and \<open>out\<close> the
  stripped output path. If one of the four numbers is not positive or the lower-cased path
  does not end with \<open>.mp4\<close>, the start is refused: one error box is shown, no encoder is
  constructed, the writer and the recording flag are what they were. Otherwise the start is
  not refused by the validation.
\<close>

theorem start_record_validation:
  assumes "duration s = Some dur"
    and "(w, h, f) = (case parse_resolution (resolution_var s) of
                        Some t \<Rightarrow> t | None \<Rightarrow> (640, 480, fps s))"
    and "out = strip (target_dir e @ now e @ EXT)"
  shows "if w \<le> 0 \<or> h \<le> 0 \<or> f \<le> 0 \<or> dur \<le> 0 \<or> \<not> endswith (lower out) ''.mp4''
         then fst (start_record e s) = Refused \<and>
              writer (snd (start_record e s)) = writer s \<and>
              writers_opened (snd (start_record e s)) = writers_opened s \<and>
              recording (snd (start_record e s)) = recording s \<and>
              errors_shown (snd (start_record e s)) = errors_shown s + 1
         else fst (start_record e s) \<noteq> Refused"
  using assms
  by (auto simp: start_record_def Let_def EXT_def split: option.splits if_splits prod.splits)

text \<open>C9 for the resolution text \<open>0x0@0fps\<close> on the application as it starts up.\<close>

theorem start_record_validation_witness:
  "fst (start_record studio_env (initial_app ''libx264'' ''Default Camera'' ''0x0@0fps''))
     = Refused \<and>
   writer (snd (start_record studio_env
             (initial_app ''libx264'' ''Default Camera'' ''0x0@0fps''))) = None \<and>
   \<not> recording (snd (start_record studio_env
             (initial_app ''libx264'' ''Default Camera'' ''0x0@0fps'')))"
proof -
  let ?s = "initial_app ''libx264'' ''Default Camera'' ''0x0@0fps'' :: nat list app"
  have d: "duration ?s = Some 60"
    by (simp add: initial_app_def)
  have p: "parse_resolution ''0x0@0fps'' = Some (0, 0, 0)"
    by code_simp
  have r: "(0, 0, 0) = (case parse_resolution (resolution_var ?s) of
                          Some t \<Rightarrow> t | None \<Rightarrow> (640, 480, fps ?s))"
    by (simp add: initial_app_def p)
  show ?thesis
    using start_record_validation [OF d r refl, of studio_env]
    by (simp add: initial_app_def)
qed

section \<open>The two loops\<close>

text \<open>
  C1 as stated fails: the preview loop and the recording loop each read from the stream
  and each call \<open>filters\<close>. With two frames left, a turn of the preview loop followed by
  a turn of the recording loop hands the first filtered frame to the preview only and the
  second to the encoder only, in two calls of \<open>filters\<close>.
\<close>

theorem frames_not_shared:
  "delivered (run toy_cv2 [PreviewTurn, RecordTurn 0] (live_app [[1], [2]]))
     = [([1], Preview), ([2], Recording)] \<and>
   filter_calls (run toy_cv2 [PreviewTurn, RecordTurn 0] (live_app [[1], [2]])) = 2"
  by code_simp

text \<open>
  C2 fails on the explicit stop: \<open>stop_record\<close> calls \<open>writer.close()\<close> and leaves
  \<open>self.writer\<close> set (\<open>stop_preview\<close> resets \<open>self.stream\<close> to \<open>None\<close>; here the
  reset is missing). The stop button runs \<open>stop_record\<close>; the recording loop then sees
  the flag cleared, leaves its loop and runs \<open>stop_record\<close> again. The writer is closed
  twice and the completion box is shown twice.
\<close>

theorem stop_button_closes_twice:
  "map_option closes
     (writer (run toy_cv2 [RecordTurn 0, StopButton, RecordTurn 1] (live_app [[1], [2], [3]])))
     = Some 2 \<and>
   infos_shown (run toy_cv2 [RecordTurn 0, StopButton, RecordTurn 1] (live_app [[1], [2], [3]]))
     = 2"
  by code_simp

section \<open>Frames, filter calls and sinks\<close>

lemma run_Cons: "run api (ev # evs) s = run api evs (step api s ev)"
  by (simp add: run_def)

lemma step_flags:
  "filter_toggle (step api s ev) = filter_toggle s"
  "gray_mode (step api s ev) = gray_mode s"
  "clahe_color (step api s ev) = clahe_color s"
  "clahe_l (step api s ev) = clahe_l s"
  by (cases ev; simp add: preview_loop_step_def record_loop_step_def stop_record_def
        on_close_def stop_preview_def Let_def split: option.splits list.splits)+

lemma preview_turn:
  assumes "previewing t" and "preview_thread t = Running" and "stream t = Some (frame # rest)"
  shows "preview_loop_step api t =
           t\<lparr>stream := Some rest,
              latest_frame :=
                Some (px_cvtColor api
                        (px_resize api
                           (filters_frame api frame (filter_toggle t) (gray_mode t)
                              (clahe_color t) (clahe_l t))
                           (canvas t))
                        COLOR_BGR2RGB),
              pulled := pulled t @ [(frame, Preview)],
              filter_calls := filter_calls t + 1,
              delivered := delivered t @
                [(filters_frame api frame (filter_toggle t) (gray_mode t)
                    (clahe_color t) (clahe_l t), Preview)]\<rparr>"
  using assms by (simp add: preview_loop_step_def Let_def)

lemma record_turn:
  assumes "recording t" and "record_thread t = Running"
    and "elapsed < of_int (snd (snd (record_args t)))"
    and "stream t = Some (frame # rest)" and "writer t = Some wg"
  shows "record_loop_step api elapsed t =
           t\<lparr>stream := Some rest,
              pulled := pulled t @ [(frame, Recording)],
              filter_calls := filter_calls t + 1,
              writer := Some (wg\<lparr>written := written wg @
                [filters_frame api frame (filter_toggle t) (gray_mode t)
                   (clahe_color t) (clahe_l t)]\<rparr>),
              delivered := delivered t @
                [(filters_frame api frame (filter_toggle t) (gray_mode t)
                    (clahe_color t) (clahe_l t), Recording)]\<rparr>"
  using assms by (simp add: record_loop_step_def Let_def)

lemma step_logs:
  assumes "writer s = Some wg"
    and "written wg =
           map (\<lambda>p. filters_frame api (fst p) a b c d)
             (filter (\<lambda>p. snd p = Recording) (pulled s))"
    and "filter_calls s = length (pulled s)"
    and "delivered s = map (\<lambda>p. (filters_frame api (fst p) a b c d, snd p)) (pulled s)"
    and "frames = map fst (pulled s) @ rest" and "stream s = None \<or> stream s = Some rest"
    and "filter_toggle s = a" and "gray_mode s = b" and "clahe_color s = c" and "clahe_l s = d"
  shows "\<exists>wg'. writer (step api s ev) = Some wg' \<and>
           written wg' =
             map (\<lambda>p. filters_frame api (fst p) a b c d)
               (filter (\<lambda>p. snd p = Recording) (pulled (step api s ev)))"
    and "filter_calls (step api s ev) = length (pulled (step api s ev))"
    and "delivered (step api s ev) =
           map (\<lambda>p. (filters_frame api (fst p) a b c d, snd p)) (pulled (step api s ev))"
    and "\<exists>rest'. frames = map fst (pulled (step api s ev)) @ rest' \<and>
           (stream (step api s ev) = None \<or> stream (step api s ev) = Some rest')"
  using assms
  by (cases ev; auto simp: preview_loop_step_def record_loop_step_def stop_record_def
        on_close_def stop_preview_def Let_def split: option.splits list.splits)+

lemma run_logs:
  assumes "writer s = Some wg"
    and "written wg =
           map (\<lambda>p. filters_frame api (fst p) a b c d)
             (filter (\<lambda>p. snd p = Recording) (pulled s))"
    and "filter_calls s = length (pulled s)"
    and "delivered s = map (\<lambda>p. (filters_frame api (fst p) a b c d, snd p)) (pulled s)"
    and "frames = map fst (pulled s) @ rest" and "stream s = None \<or> stream s = Some rest"
    and "filter_toggle s = a" and "gray_mode s = b" and "clahe_color s = c" and "clahe_l s = d"
  shows "filter_calls (run api evs s) = length (pulled (run api evs s)) \<and>
         delivered (run api evs s) =
           map (\<lambda>p. (filters_frame api (fst p) a b c d, snd p)) (pulled (run api evs s)) \<and>
         (\<exists>rest'. frames = map fst (pulled (run api evs s)) @ rest' \<and>
            (stream (run api evs s) = None \<or> stream (run api evs s) = Some rest')) \<and>
         map_option written (writer (run api evs s)) =
           Some (map (\<lambda>p. filters_frame api (fst p) a b c d)
                   (filter (\<lambda>p. snd p = Recording) (pulled (run api evs s))))"
  using assms
proof (induction evs arbitrary: s wg rest)
  case Nil
  then show ?case by (auto simp: run_def)
next
  case (Cons ev evs)
  note st = step_logs [OF Cons.prems, of ev]
  from st(1) obtain wg' where
    w: "writer (step api s ev) = Some wg'"
       "written wg' =
          map (\<lambda>p. filters_frame api (fst p) a b c d)
            (filter (\<lambda>p. snd p = Recording) (pulled (step api s ev)))"
    by blast
  from st(4) obtain rest' where
    r: "frames = map fst (pulled (step api s ev)) @ rest'"
       "stream (step api s ev) = None \<or> stream (step api s ev) = Some rest'"
    by blast
  show ?case
    unfolding run_Cons
    by (rule Cons.IH [OF w st(2) st(3) r]) (simp_all add: step_flags Cons.prems)
qed

text \<open>
  C1, amended. A turn of the preview loop that finds a frame takes it off the stream,
  calls \<open>filters\<close> once, and hands the filtered frame to the preview only: the latest
  preview frame is made from it and the writer is left as it is. A turn of the recording
  loop that finds a frame takes it off the stream, calls \<open>filters\<close> once, and hands the
  filtered frame to the encoder only: it is written to the writer and the latest preview
  frame is left as it is. Hence, from a state in which the writer is open and nothing has
  been read yet, after any sequence of loop turns and control events: the frames read are
  an initial part of the stream, each read once, by one loop; \<open>filters\<close> has been called
  once per frame read; each frame read has been filtered and handed to the sink of the loop
  that read it, and to no other; and the encoder has been written exactly the filtered
  frames that the recording loop read, in order.
\<close>

theorem each_frame_filtered_once_for_one_sink:
  "(previewing t \<and> preview_thread t = Running \<and> stream t = Some (frame # rest) \<longrightarrow>
      stream (step api t PreviewTurn) = Some rest \<and>
      pulled (step api t PreviewTurn) = pulled t @ [(frame, Preview)] \<and>
      filter_calls (step api t PreviewTurn) = filter_calls t + 1 \<and>
      delivered (step api t PreviewTurn) =
        delivered t @ [(filters_frame api frame (filter_toggle t) (gray_mode t)
                          (clahe_color t) (clahe_l t), Preview)] \<and>
      latest_frame (step api t PreviewTurn) =
        Some (px_cvtColor api
                (px_resize api
                   (filters_frame api frame (filter_toggle t) (gray_mode t)
                      (clahe_color t) (clahe_l t))
                   (canvas t))
                COLOR_BGR2RGB) \<and>
      writer (step api t PreviewTurn) = writer t) \<and>
   (recording t \<and> record_thread t = Running \<and>
    elapsed < of_int (snd (snd (record_args t))) \<and>
    stream t = Some (frame # rest) \<and> writer t = Some wg0 \<longrightarrow>
      stream (step api t (RecordTurn elapsed)) = Some rest \<and>
      pulled (step api t (RecordTurn elapsed)) = pulled t @ [(frame, Recording)] \<and>
      filter_calls (step api t (RecordTurn elapsed)) = filter_calls t + 1 \<and>
      delivered (step api t (RecordTurn elapsed)) =
        delivered t @ [(filters_frame api frame (filter_toggle t) (gray_mode t)
                          (clahe_color t) (clahe_l t), Recording)] \<and>
      writer (step api t (RecordTurn elapsed)) =
        Some (wg0\<lparr>written := written wg0 @
                [filters_frame api frame (filter_toggle t) (gray_mode t)
                   (clahe_color t) (clahe_l t)]\<rparr>) \<and>
      latest_frame (step api t (RecordTurn elapsed)) = latest_frame t) \<and>
   (stream s = Some frames \<and> writer s = Some wg \<and> written wg = [] \<and>
    pulled s = [] \<and> delivered s = [] \<and> filter_calls s = 0 \<longrightarrow>
      filter_calls (run api evs s) = length (pulled (run api evs s)) \<and>
      delivered (run api evs s) =
        map (\<lambda>p. (filters_frame api (fst p) (filter_toggle s) (gray_mode s)
                     (clahe_color s) (clahe_l s), snd p)) (pulled (run api evs s)) \<and>
      (\<exists>rest'. frames = map fst (pulled (run api evs s)) @ rest' \<and>
         (stream (run api evs s) = None \<or> stream (run api evs s) = Some rest')) \<and>
      map_option written (writer (run api evs s)) =
        Some (map (\<lambda>p. filters_frame api (fst p) (filter_toggle s) (gray_mode s)
                          (clahe_color s) (clahe_l s))
                (filter (\<lambda>p. snd p = Recording) (pulled (run api evs s)))))"
proof (intro conjI impI)
  assume h: "stream s = Some frames \<and> writer s = Some wg \<and> written wg = [] \<and>
    pulled s = [] \<and> delivered s = [] \<and> filter_calls s = 0"
  have logs:
    "filter_calls (run api evs s) = length (pulled (run api evs s)) \<and>
     delivered (run api evs s) =
       map (\<lambda>p. (filters_frame api (fst p) (filter_toggle s) (gray_mode s)
                    (clahe_color s) (clahe_l s), snd p)) (pulled (run api evs s)) \<and>
     (\<exists>rest'. frames = map fst (pulled (run api evs s)) @ rest' \<and>
        (stream (run api evs s) = None \<or> stream (run api evs s) = Some rest')) \<and>
     map_option written (writer (run api evs s)) =
       Some (map (\<lambda>p. filters_frame api (fst p) (filter_toggle s) (gray_mode s)
                         (clahe_color s) (clahe_l s))
               (filter (\<lambda>p. snd p = Recording) (pulled (run api evs s))))"
    by (rule run_logs [where wg = wg and rest = frames]) (simp_all add: h)
  from logs show "filter_calls (run api evs s) = length (pulled (run api evs s))"
    by blast
  from logs show "delivered (run api evs s) =
       map (\<lambda>p. (filters_frame api (fst p) (filter_toggle s) (gray_mode s)
                    (clahe_color s) (clahe_l s), snd p)) (pulled (run api evs s))"
    by blast
  from logs show "\<exists>rest'. frames = map fst (pulled (run api evs s)) @ rest' \<and>
        (stream (run api evs s) = None \<or> stream (run api evs s) = Some rest')"
    by blast
  from logs show "map_option written (writer (run api evs s)) =
       Some (map (\<lambda>p. filters_frame api (fst p) (filter_toggle s) (gray_mode s)
                         (clahe_color s) (clahe_l s))
               (filter (\<lambda>p. snd p = Recording) (pulled (run api evs s))))"
    by blast
qed (simp_all add: preview_turn record_turn)

text \<open>
  C1, amended, on the application while it records. One preview turn takes the first frame
  for the preview and leaves the writer empty; one recording turn takes it for the encoder.
  When the two loops read three frames in turn, the first and the third are read by the
  preview loop, the second by the recording loop, and the encoder is written the second
  only.
\<close>

theorem each_frame_filtered_once_for_one_sink_witness:
  "stream (step toy_cv2 (live_app [[1], [2], [3]]) PreviewTurn) = Some [[2], [3]] \<and>
   pulled (step toy_cv2 (live_app [[1], [2], [3]]) PreviewTurn) = [([1], Preview)] \<and>
   map_option written (writer (step toy_cv2 (live_app [[1], [2], [3]]) PreviewTurn)) = Some [] \<and>
   stream (step toy_cv2 (live_app [[1], [2], [3]]) (RecordTurn 0)) = Some [[2], [3]] \<and>
   pulled (step toy_cv2 (live_app [[1], [2], [3]]) (RecordTurn 0)) = [([1], Recording)] \<and>
   latest_frame (step toy_cv2 (live_app [[1], [2], [3]]) (RecordTurn 0)) = None \<and>
   pulled (run toy_cv2 [PreviewTurn, RecordTurn 0, PreviewTurn] (live_app [[1], [2], [3]]))
     = [([1], Preview), ([2], Recording), ([3], Preview)] \<and>
   filter_calls (run toy_cv2 [PreviewTurn, RecordTurn 0, PreviewTurn] (live_app [[1], [2], [3]]))
     = 3 \<and>
   map_option written
     (writer (run toy_cv2 [PreviewTurn, RecordTurn 0, PreviewTurn] (live_app [[1], [2], [3]])))
     = Some [filters_frame toy_cv2 [2] False False False False]"
proof -
  let ?s = "live_app [[1], [2], [3::nat]]"
  let ?wg = "\<lparr>wg_output = ''recordings/20250101_120000.mp4'',
              wg_options = encoder_options ''libx264'' 23 30,
              written = ([] :: nat list list), closes = 0\<rparr>"
  let ?evs = "[PreviewTurn, RecordTurn 0, PreviewTurn]"
  have p: "pulled (run toy_cv2 ?evs ?s) = [([1], Preview), ([2], Recording), ([3], Preview)]"
    by code_simp
  have h: "stream ?s = Some [[1], [2], [3]] \<and> writer ?s = Some ?wg \<and> written ?wg = [] \<and>
           pulled ?s = [] \<and> delivered ?s = [] \<and> filter_calls ?s = 0"
    by (simp add: live_app_def initial_app_def)
  have f: "filter_toggle ?s = False" "gray_mode ?s = False" "clahe_color ?s = False"
    "clahe_l ?s = False" "latest_frame ?s = None"
    by (simp_all add: live_app_def initial_app_def)
  have pre: "previewing ?s \<and> preview_thread ?s = Running \<and> stream ?s = Some ([1] # [[2], [3]])"
    by (simp add: live_app_def initial_app_def)
  have rec: "recording ?s \<and> record_thread ?s = Running \<and>
             (0::rat) < of_int (snd (snd (record_args ?s))) \<and>
             stream ?s = Some ([1] # [[2], [3]]) \<and> writer ?s = Some ?wg"
    by (simp add: live_app_def initial_app_def)
  from each_frame_filtered_once_for_one_sink
    [where t = ?s and frame = "[1]" and rest = "[[2], [3]]" and api = toy_cv2] pre
  have one: "stream (step toy_cv2 ?s PreviewTurn) = Some [[2], [3]] \<and>
             pulled (step toy_cv2 ?s PreviewTurn) = pulled ?s @ [([1], Preview)] \<and>
             writer (step toy_cv2 ?s PreviewTurn) = writer ?s"
    by blast
  from each_frame_filtered_once_for_one_sink
    [where t = ?s and frame = "[1]" and rest = "[[2], [3]]" and api = toy_cv2
       and elapsed = 0 and ?wg0.0 = ?wg] rec
  have two: "stream (step toy_cv2 ?s (RecordTurn 0)) = Some [[2], [3]] \<and>
             pulled (step toy_cv2 ?s (RecordTurn 0)) = pulled ?s @ [([1], Recording)] \<and>
             latest_frame (step toy_cv2 ?s (RecordTurn 0)) = latest_frame ?s"
    by blast
  from each_frame_filtered_once_for_one_sink
    [where s = ?s and frames = "[[1], [2], [3]]" and wg = ?wg and api = toy_cv2 and evs = ?evs] h
  have three: "filter_calls (run toy_cv2 ?evs ?s) = length (pulled (run toy_cv2 ?evs ?s)) \<and>
        map_option written (writer (run toy_cv2 ?evs ?s)) =
          Some (map (\<lambda>p. filters_frame toy_cv2 (fst p) (filter_toggle ?s) (gray_mode ?s)
                            (clahe_color ?s) (clahe_l ?s))
                  (filter (\<lambda>p. snd p = Recording) (pulled (run toy_cv2 ?evs ?s))))"
    by blast
  from one two three p f h show ?thesis by simp
qed

section \<open>Reaching the recording state\<close>

text \<open>
  \<open>live_app\<close> is where \<open>start_record\<close> takes the application from its initial
  state, through \<open>start_preview\<close>, when the camera opens and the encoder can be built.
\<close>

lemma parse_640_480: "parse_resolution ''640x480@30fps'' = Some (640, 480, 30)"
  by code_simp

lemma canvas_640_480: "preview_canvas_size 640 480 = Inr (1280, 960)"
  using preview_canvas_size_scale [of 160 4 3] canvas_4_3 by simp

lemma output_path_stripped:
  "strip ''recordings/20250101_120000.mp4'' = ''recordings/20250101_120000.mp4''"
  by code_simp

lemma output_path_mp4: "endswith (lower ''recordings/20250101_120000.mp4'') ''.mp4''"
  by code_simp

lemma start_record_reaches_live_app:
  "start_record studio_env (initial_app ''libx264'' ''Default Camera'' ''640x480@30fps'')
     = (Started, live_app [[1], [2], [3]])"
  by (simp add: start_record_def start_preview_def studio_env_def initial_app_def live_app_def
      parse_640_480 canvas_640_480 output_path_stripped output_path_mp4 detect_devices_def
      subprocess_run_def default_camera_def EXT_def PREVIEW_WIDTH_def PREVIEW_HEIGHT_def Let_def)

section \<open>Ending a recording\<close>

text \<open>
  \<open>stop_record\<close> closes the writer each time it runs. When only the recording loop
  runs it, after the duration has elapsed or the source has ended, that is once.
\<close>

lemma stop_record_twice:
  "writer s = Some wg \<Longrightarrow>
   map_option closes (writer (stop_record (stop_record s))) = Some (closes wg + 2) \<and>
   infos_shown (stop_record (stop_record s)) = infos_shown s + 2"
  by (simp add: stop_record_def)

lemma timeout_closes_once:
  "map_option closes
     (writer (run toy_cv2 [RecordTurn 0, RecordTurn 60] (live_app [[1], [2], [3]]))) = Some 1"
  by code_simp

lemma exhaustion_closes_once:
  "map_option closes (writer (run toy_cv2 [RecordTurn 0, RecordTurn 1] (live_app [[1]]))) = Some 1"
  by code_simp

end
